theory Spec2Isabelle
  imports Main
begin

section \<open>Values of the host language\<close>

text \<open>
  The payload of \<open>AddTemplateService.call\<close> has the TypeScript type \<open>unknown\<close>, and the
  \<open>account\<close> column of an authorization row is a JSON column: both are arbitrary
  JavaScript values.  The datatype has \<open>undefined\<close> and the kinds of value JSON has
  (no function of the model looks into a number).  A string is the list of its code
  units, so \<open>length\<close> is the \<open>.length\<close> the schema library measures.  An object is
  the list of its own properties; reading a property that is not there gives
  \<open>undefined\<close>.
\<close>

datatype jsvalue =
    JUndefined
  | JNull
  | JBoolean bool
  | JNumber int
  | JString string
  | JArray "jsvalue list"
  | JObject "(string \<times> jsvalue) list"

definition property :: "(string \<times> jsvalue) list \<Rightarrow> string \<Rightarrow> jsvalue" where
  "property kvs k = (case map_of kvs k of None \<Rightarrow> JUndefined | Some v \<Rightarrow> v)"

text \<open>
  A statement either completes with a value or throws.  The \<open>URL\<close> constructor throws a
  \<open>TypeError\<close> for a string that is not a URL, and each awaited call of a collaborator
  can reject with an error of its own.  The function has no \<open>try\<close> block, so either leaves
  \<open>call\<close> as it is.
\<close>

datatype thrown = TypeError string | Rejected string

datatype 'a completion = Returns 'a | Throws thrown

section \<open>The form schema (lines 14--19)\<close>

text \<open>
  \<open>FormSchema = z.object({name: z.string().min(3).max(100), templateId: z.string(),
  private: z.literal("on").optional(), appAuthorizationId: z.string()})\<close>.

  The schema library classifies the input (\<open>getParsedType\<close>), and every validator
  either yields its value or adds issues.  \<open>safeParse\<close> succeeds exactly when no issue
  was added; an object schema visits its keys in the order of the shape and collects
  the issues of all of them, and (in its default mode) ignores keys it does not know.
\<close>

datatype ZodParsedType =
    zod_undefined | zod_null | zod_boolean | zod_number | zod_string | zod_array | zod_object

fun getParsedType :: "jsvalue \<Rightarrow> ZodParsedType" where
  "getParsedType JUndefined = zod_undefined"
| "getParsedType JNull = zod_null"
| "getParsedType (JBoolean b) = zod_boolean"
| "getParsedType (JNumber n) = zod_number"
| "getParsedType (JString s) = zod_string"
| "getParsedType (JArray xs) = zod_array"
| "getParsedType (JObject kvs) = zod_object"

datatype ZodIssue =
    invalid_type "string list" ZodParsedType ZodParsedType
  | invalid_literal "string list" string jsvalue
  | too_small "string list" nat
  | too_big "string list" nat

fun issue_path :: "ZodIssue \<Rightarrow> string list" where
  "issue_path (invalid_type p e r) = p"
| "issue_path (invalid_literal p e r) = p"
| "issue_path (too_small p n) = p"
| "issue_path (too_big p n) = p"

text \<open>\<open>z.string()\<close>: the input must be a string.\<close>

definition z_string :: "string list \<Rightarrow> jsvalue \<Rightarrow> ZodIssue list + string" where
  "z_string p v =
     (case v of JString s \<Rightarrow> Inr s | _ \<Rightarrow> Inl [invalid_type p zod_string (getParsedType v)])"

text \<open>
  \<open>z.string().min(lo).max(hi)\<close>: the input must be a string; then each check runs
  in turn, \<open>min\<close> failing when \<open>length < lo\<close> and \<open>max\<close> when \<open>length > hi\<close>.
\<close>

definition z_string_min_max :: "nat \<Rightarrow> nat \<Rightarrow> string list \<Rightarrow> jsvalue \<Rightarrow> ZodIssue list + string" where
  "z_string_min_max lo hi p v =
     (case v of
        JString s \<Rightarrow>
          (let issues = (if length s < lo then [too_small p lo] else []) @
                        (if length s > hi then [too_big p hi] else [])
           in if issues = [] then Inr s else Inl issues)
      | _ \<Rightarrow> Inl [invalid_type p zod_string (getParsedType v)])"

text \<open>
  \<open>z.literal(lit).optional()\<close>: \<open>undefined\<close> is accepted as it is; anything else must
  be identical to the literal.
\<close>

definition z_literal_optional :: "string \<Rightarrow> string list \<Rightarrow> jsvalue \<Rightarrow> ZodIssue list + string option" where
  "z_literal_optional lit p v =
     (if v = JUndefined then Inr None
      else if v = JString lit then Inr (Some lit)
      else Inl [invalid_literal p lit v])"

fun issues_of :: "ZodIssue list + 'a \<Rightarrow> ZodIssue list" where
  "issues_of (Inl is) = is"
| "issues_of (Inr v) = []"

record FormData =
  name :: string
  templateId :: string
  private_field :: "string option"
  appAuthorizationId :: string

definition FormSchema_safeParse :: "jsvalue \<Rightarrow> ZodIssue list + FormData" where
  "FormSchema_safeParse payload =
     (case payload of
        JObject kvs \<Rightarrow>
          (let r1 = z_string_min_max 3 100 [''name''] (property kvs ''name'');
               r2 = z_string [''templateId''] (property kvs ''templateId'');
               r3 = z_literal_optional ''on'' [''private''] (property kvs ''private'');
               r4 = z_string [''appAuthorizationId''] (property kvs ''appAuthorizationId'')
           in case (r1, r2, r3, r4) of
                (Inr n, Inr t, Inr p, Inr a) \<Rightarrow>
                  Inr \<lparr>name = n, templateId = t, private_field = p, appAuthorizationId = a\<rparr>
              | _ \<Rightarrow> Inl (issues_of r1 @ issues_of r2 @ issues_of r3 @ issues_of r4))
      | _ \<Rightarrow> Inl [invalid_type [] zod_object (getParsedType payload)])"

section \<open>Rows, the URL and the collaborators\<close>

record GitHubAppAuthorization =
  installationId :: int
  account :: jsvalue

record Template =
  repositoryUrl :: string

record Account =
  login :: string

record GithubRepository =
  html_url :: string
  response :: jsvalue

text \<open>
  The path of a parsed URL is either opaque (one string, as in \<open>mailto:a/b\<close>) or a list
  of segments.  The \<open>pathname\<close> getter serialises it: an opaque path as it is, a list
  as every segment preceded by a slash.
\<close>

datatype url_path = OpaquePath string | ListPath "string list"

record URL =
  path :: url_path

fun serialize_path :: "url_path \<Rightarrow> string" where
  "serialize_path (OpaquePath s) = s"
| "serialize_path (ListPath segs) = concat (map (\<lambda>s. CHR ''/'' # s) segs)"

definition pathname :: "URL \<Rightarrow> string" where
  "pathname u = serialize_path (path u)"

text \<open>
  \<open>String.prototype.split\<close> with a one-character separator: the pieces between the
  occurrences of the separator, so \<open>n\<close> occurrences give \<open>n + 1\<close> pieces and the empty
  string gives one empty piece.
\<close>

fun split :: "string \<Rightarrow> char \<Rightarrow> string list" where
  "split [] sep = [[]]"
| "split (c # cs) sep =
     (if c = sep then [] # split cs sep
      else (case split cs sep of [] \<Rightarrow> [[c]] | p # ps \<Rightarrow> (c # p) # ps))"

text \<open>\<open>Array.prototype.slice(start)\<close> for a start that is not negative: everything from that index on.\<close>

definition slice :: "'a list \<Rightarrow> nat \<Rightarrow> 'a list" where
  "slice xs start = drop start xs"

text \<open>
  An element of an array pattern \<open>[a, b] = xs\<close>: the element at that index, or
  \<open>undefined\<close> (\<open>None\<close>) when the array is shorter.
\<close>

definition element :: "'a list \<Rightarrow> nat \<Rightarrow> 'a option" where
  "element xs i = (if i < length xs then Some (xs ! i) else None)"

text \<open>Lines 94--96: \<open>[template_owner, template_repo] = pathname.split("/").slice(1)\<close>.\<close>

definition owner_and_repo :: "URL \<Rightarrow> string option \<times> string option" where
  "owner_and_repo u =
     (let parts = slice (split (pathname u) CHR ''/'') 1
      in (element parts 0, element parts 1))"

record RepositoryParams =
  template_owner :: "string option"
  template_repo :: "string option"
  owner :: string
  name_param :: string
  private_param :: bool

record OrganizationTemplateCreateInput =
  name_data :: string
  repositoryUrl_data :: string
  repositoryData :: GithubRepository
  template_connect_id :: string
  private_data :: bool
  organization_connect_slug :: string
  authorization_connect_id :: string

text \<open>
  The collaborators of the service are parameters.  Each of the four awaited calls
  either rejects or completes: a lookup with the row or nothing, the repository call
  with the repository or nothing, the create with the created row (of a type \<open>'ot\<close>
  that \<open>call\<close> never inspects).  \<open>octokit\<close> says whether the API client is configured.
  \<open>URL_new\<close> is the platform's \<open>URL\<close> constructor, \<open>AccountSchema_safeParse\<close> the
  account schema's check and \<open>generateErrorMessage\<close> the rendering of the issue list.
\<close>

record 'ot env =
  gitHubAppAuthorization_findUnique :: "string \<Rightarrow> GitHubAppAuthorization option completion"
  template_findUnique :: "string \<Rightarrow> Template option completion"
  octokit :: bool
  AccountSchema_safeParse :: "jsvalue \<Rightarrow> Account option"
  URL_new :: "string \<Rightarrow> URL completion"
  createRepositoryFromTemplate ::
    "RepositoryParams \<Rightarrow> int \<Rightarrow> GithubRepository option completion"
  organizationTemplate_create :: "OrganizationTemplateCreateInput \<Rightarrow> 'ot completion"
  generateErrorMessage :: "ZodIssue list \<Rightarrow> string"

text \<open>
  What \<open>call\<close> asks of the outside world, in the order it asks: an effect is recorded
  when it is issued, whether it then completes or rejects.
\<close>

datatype effect =
    Read_GitHubAppAuthorization string
  | Read_Template string
  | Call_createRepositoryFromTemplate RepositoryParams int
  | Write_OrganizationTemplate OrganizationTemplateCreateInput

datatype 'ot result = Error string | Success 'ot

section \<open>\<open>AddTemplateService.call\<close> (lines 28--145)\<close>

text \<open>The argument of the repository call (lines 99--105).\<close>

definition repositoryParams :: "FormData \<Rightarrow> Account \<Rightarrow> URL \<Rightarrow> RepositoryParams" where
  "repositoryParams d acct url =
     \<lparr>template_owner = fst (owner_and_repo url),
      template_repo = snd (owner_and_repo url),
      owner = login acct,
      name_param = name d,
      private_param = (private_field d = Some ''on'')\<rparr>"

text \<open>The argument of the create (lines 118--138).\<close>

definition createInput :: "FormData \<Rightarrow> string \<Rightarrow> GithubRepository \<Rightarrow> OrganizationTemplateCreateInput" where
  "createInput d organizationSlug githubRepository =
     \<lparr>name_data = name d,
      repositoryUrl_data = html_url githubRepository,
      repositoryData = githubRepository,
      template_connect_id = templateId d,
      private_data = (private_field d = Some ''on''),
      organization_connect_slug = organizationSlug,
      authorization_connect_id = appAuthorizationId d\<rparr>"

text \<open>
  The function returns its completion together with the effects it issued.  Every
  \<open>return\<close> of the source is one branch, and so is the throw of the \<open>URL\<close> constructor
  (line 91) and the rejection of each \<open>await\<close> (lines 48, 62, 98 and 116).
\<close>

definition call ::
  "'ot env \<Rightarrow> string \<Rightarrow> string \<Rightarrow> jsvalue \<Rightarrow> 'ot result completion \<times> effect list" where
  "call env userId organizationSlug payload =
     (case FormSchema_safeParse payload of
        Inl issues \<Rightarrow> (Returns (Error (generateErrorMessage env issues)), [])
      | Inr d \<Rightarrow>
     (let t1 = [Read_GitHubAppAuthorization (appAuthorizationId d)] in
      case gitHubAppAuthorization_findUnique env (appAuthorizationId d) of
        Throws e \<Rightarrow> (Throws e, t1)
      | Returns None \<Rightarrow> (Returns (Error ''App authorization not found''), t1)
      | Returns (Some appAuthorization) \<Rightarrow>
     (let t2 = t1 @ [Read_Template (templateId d)] in
      case template_findUnique env (templateId d) of
        Throws e \<Rightarrow> (Throws e, t2)
      | Returns None \<Rightarrow> (Returns (Error ''Template not found''), t2)
      | Returns (Some template) \<Rightarrow>
      if \<not> octokit env then (Returns (Error ''GitHub App not configured''), t2)
      else
     (case AccountSchema_safeParse env (account appAuthorization) of
        None \<Rightarrow> (Returns (Error ''Account not found''), t2)
      | Some acct \<Rightarrow>
     (case URL_new env (repositoryUrl template) of
        Throws e \<Rightarrow> (Throws e, t2)
      | Returns url \<Rightarrow>
     (let params = repositoryParams d acct url;
          t3 = t2 @ [Call_createRepositoryFromTemplate params (installationId appAuthorization)] in
      case createRepositoryFromTemplate env params (installationId appAuthorization) of
        Throws e \<Rightarrow> (Throws e, t3)
      | Returns None \<Rightarrow> (Returns (Error ''Failed to create repository''), t3)
      | Returns (Some githubRepository) \<Rightarrow>
     (let data = createInput d organizationSlug githubRepository;
          t4 = t3 @ [Write_OrganizationTemplate data] in
      case organizationTemplate_create env data of
        Throws e \<Rightarrow> (Throws e, t4)
      | Returns organizationTemplate \<Rightarrow> (Returns (Success organizationTemplate), t4))))))))"

section \<open>Notions the properties are stated with\<close>

fun is_write :: "effect \<Rightarrow> bool" where
  "is_write (Write_OrganizationTemplate d) = True"
| "is_write e = False"

text \<open>
  The rows a run has persisted: those of the creates it issued that completed.  A
  create that rejects persists nothing.
\<close>

fun persisted_by :: "'ot env \<Rightarrow> effect \<Rightarrow> 'ot list" where
  "persisted_by env (Write_OrganizationTemplate d) =
     (case organizationTemplate_create env d of Returns row \<Rightarrow> [row] | Throws e \<Rightarrow> [])"
| "persisted_by env e = []"

definition persisted :: "'ot env \<Rightarrow> effect list \<Rightarrow> 'ot list" where
  "persisted env trace = concat (map (persisted_by env) trace)"

text \<open>
  The shape the form schema is said to accept, in the words of the specification:
  \<open>name\<close> a string of 3 to 100 characters, \<open>templateId\<close> a string, \<open>private\<close> absent
  (reading it gives \<open>undefined\<close>) or the literal \<open>"on"\<close>, \<open>appAuthorizationId\<close> a string.
\<close>

definition name_ok :: "jsvalue \<Rightarrow> bool" where
  "name_ok v = (case v of JString s \<Rightarrow> 3 \<le> length s \<and> length s \<le> 100 | _ \<Rightarrow> False)"

definition string_ok :: "jsvalue \<Rightarrow> bool" where
  "string_ok v = (case v of JString s \<Rightarrow> True | _ \<Rightarrow> False)"

definition marker_ok :: "jsvalue \<Rightarrow> bool" where
  "marker_ok v = (v = JUndefined \<or> v = JString ''on'')"

definition has_form_shape :: "jsvalue \<Rightarrow> bool" where
  "has_form_shape payload =
     (case payload of
        JObject kvs \<Rightarrow>
          name_ok (property kvs ''name'') \<and> string_ok (property kvs ''templateId'') \<and>
          marker_ok (property kvs ''private'') \<and> string_ok (property kvs ''appAuthorizationId'')
      | _ \<Rightarrow> False)"

text \<open>The keys of an object payload whose value violates the shape, in schema order.\<close>

definition violated_keys :: "(string \<times> jsvalue) list \<Rightarrow> string list" where
  "violated_keys kvs =
     (if name_ok (property kvs ''name'') then [] else [''name'']) @
     (if string_ok (property kvs ''templateId'') then [] else [''templateId'']) @
     (if marker_ok (property kvs ''private'') then [] else [''private'']) @
     (if string_ok (property kvs ''appAuthorizationId'') then [] else [''appAuthorizationId''])"

text \<open>
  The path segments of a parsed URL: those of its list, and an opaque path is a
  single segment.
\<close>

definition path_segments :: "URL \<Rightarrow> string list" where
  "path_segments u = (case path u of OpaquePath s \<Rightarrow> [s] | ListPath segs \<Rightarrow> segs)"

definition slash_free :: "string list \<Rightarrow> bool" where
  "slash_free segs = list_all (\<lambda>s. CHR ''/'' \<notin> set s) segs"

section \<open>A sample environment\<close>

text \<open>
  Two authorization rows (the second with an account the account schema rejects),
  five templates, an account schema that asks for a string \<open>login\<close>, a \<open>URL\<close>
  constructor tabulated on four URLs that throws on every other string, a repository
  call that fails for the name \<open>taken\<close>, and a create that knows the one organization
  \<open>acme\<close>: for its slug it returns the row as the pair of a fresh id and its input, and
  for every other slug it rejects, as a connect to a row that does not exist does.
\<close>

definition sample_findAuthorization :: "string \<Rightarrow> GitHubAppAuthorization option completion" where
  "sample_findAuthorization i =
     (if i = ''auth_1'' then
        Returns (Some \<lparr>installationId = 42, account = JObject [(''login'', JString ''acme-org'')]\<rparr>)
      else if i = ''auth_2'' then Returns (Some \<lparr>installationId = 43, account = JNull\<rparr>)
      else Returns None)"

definition sample_findTemplate :: "string \<Rightarrow> Template option completion" where
  "sample_findTemplate i =
     (if i = ''tpl_1'' then Returns (Some \<lparr>repositoryUrl = ''https://github.com/acme/base-starter''\<rparr>)
      else if i = ''tpl_root'' then Returns (Some \<lparr>repositoryUrl = ''https://github.com/''\<rparr>)
      else if i = ''tpl_slash'' then Returns (Some \<lparr>repositoryUrl = ''https://github.com/acme/''\<rparr>)
      else if i = ''tpl_mailto'' then Returns (Some \<lparr>repositoryUrl = ''mailto:acme/base-starter''\<rparr>)
      else if i = ''tpl_bad'' then Returns (Some \<lparr>repositoryUrl = ''not a url''\<rparr>)
      else Returns None)"

definition sample_AccountSchema :: "jsvalue \<Rightarrow> Account option" where
  "sample_AccountSchema v =
     (case v of
        JObject kvs \<Rightarrow> (case property kvs ''login'' of JString s \<Rightarrow> Some \<lparr>login = s\<rparr> | _ \<Rightarrow> None)
      | _ \<Rightarrow> None)"

definition sample_URL_new :: "string \<Rightarrow> URL completion" where
  "sample_URL_new s =
     (if s = ''https://github.com/acme/base-starter'' then
        Returns \<lparr>path = ListPath [''acme'', ''base-starter'']\<rparr>
      else if s = ''https://github.com/'' then Returns \<lparr>path = ListPath [[]]\<rparr>
      else if s = ''https://github.com/acme/'' then Returns \<lparr>path = ListPath [''acme'', []]\<rparr>
      else if s = ''mailto:acme/base-starter'' then Returns \<lparr>path = OpaquePath ''acme/base-starter''\<rparr>
      else Throws (TypeError ''Invalid URL''))"

definition sample_repository :: "string \<Rightarrow> string \<Rightarrow> GithubRepository" where
  "sample_repository ow n =
     \<lparr>html_url = ''https://github.com/'' @ ow @ ''/'' @ n,
      response = JObject [(''id'', JNumber 7)]\<rparr>"

definition sample_createRepository ::
  "RepositoryParams \<Rightarrow> int \<Rightarrow> GithubRepository option completion" where
  "sample_createRepository ps i =
     (if name_param ps = ''taken'' then Returns None
      else Returns (Some (sample_repository (owner ps) (name_param ps))))"

definition sample_create ::
  "OrganizationTemplateCreateInput \<Rightarrow> (string \<times> OrganizationTemplateCreateInput) completion" where
  "sample_create d =
     (if organization_connect_slug d = ''acme'' then Returns (''ot_1'', d)
      else Throws (Rejected ''No Organization found''))"

definition sample_env :: "(string \<times> OrganizationTemplateCreateInput) env" where
  "sample_env =
     \<lparr>gitHubAppAuthorization_findUnique = sample_findAuthorization,
      template_findUnique = sample_findTemplate,
      octokit = True,
      AccountSchema_safeParse = sample_AccountSchema,
      URL_new = sample_URL_new,
      createRepositoryFromTemplate = sample_createRepository,
      organizationTemplate_create = sample_create,
      generateErrorMessage = (\<lambda>issues. concat (map (\<lambda>i. concat (issue_path i) @ ''; '') issues))\<rparr>"

definition sample_payload :: "string \<Rightarrow> string \<Rightarrow> string \<Rightarrow> jsvalue" where
  "sample_payload n t a =
     JObject [(''name'', JString n), (''templateId'', JString t), (''private'', JString ''on''),
              (''appAuthorizationId'', JString a)]"

section \<open>Lemmas about the schema\<close>

lemma z_string_accepts: "z_string p v = Inr s \<longleftrightarrow> v = JString s"
  by (cases v) (simp_all add: z_string_def)

lemma z_string_issues:
  "issues_of (z_string p v) = (if string_ok v then [] else [invalid_type p zod_string (getParsedType v)])"
  by (cases v) (simp_all add: z_string_def string_ok_def)

lemma z_string_min_max_accepts:
  "z_string_min_max lo hi p v = Inr s \<longleftrightarrow> v = JString s \<and> lo \<le> length s \<and> length s \<le> hi"
  by (cases v) (auto simp: z_string_min_max_def Let_def)

lemma name_issues_path:
  "map issue_path (issues_of (z_string_min_max 3 100 p v)) = (if name_ok v then [] else [p])"
  by (cases v) (auto simp: z_string_min_max_def name_ok_def Let_def)

lemma z_literal_optional_accepts:
  "z_literal_optional lit p v = Inr m \<longleftrightarrow>
     (v = JUndefined \<and> m = None) \<or> (v = JString lit \<and> m = Some lit)"
  by (auto simp: z_literal_optional_def)

lemma marker_issues:
  "issues_of (z_literal_optional ''on'' p v) = (if marker_ok v then [] else [invalid_literal p ''on'' v])"
  by (simp add: z_literal_optional_def marker_ok_def)

lemma issues_of_Nil_iff: "issues_of r = [] \<longleftrightarrow> (case r of Inl is \<Rightarrow> is = [] | Inr v \<Rightarrow> True)"
  by (cases r) simp_all

lemma safeParse_object_accepts:
  "FormSchema_safeParse (JObject kvs) = Inr d \<longleftrightarrow>
     z_string_min_max 3 100 [''name''] (property kvs ''name'') = Inr (name d) \<and>
     z_string [''templateId''] (property kvs ''templateId'') = Inr (templateId d) \<and>
     z_literal_optional ''on'' [''private''] (property kvs ''private'') = Inr (private_field d) \<and>
     z_string [''appAuthorizationId''] (property kvs ''appAuthorizationId'') = Inr (appAuthorizationId d)"
  by (cases d) (auto simp: FormSchema_safeParse_def Let_def split: sum.splits)

lemma safeParse_object_issues:
  "FormSchema_safeParse (JObject kvs) = Inl is \<Longrightarrow>
     is = issues_of (z_string_min_max 3 100 [''name''] (property kvs ''name'')) @
          issues_of (z_string [''templateId''] (property kvs ''templateId'')) @
          issues_of (z_literal_optional ''on'' [''private''] (property kvs ''private'')) @
          issues_of (z_string [''appAuthorizationId''] (property kvs ''appAuthorizationId''))"
  by (auto simp: FormSchema_safeParse_def Let_def split: sum.splits)

lemma safeParse_not_object:
  "(\<And>kvs. payload \<noteq> JObject kvs) \<Longrightarrow>
     FormSchema_safeParse payload = Inl [invalid_type [] zod_object (getParsedType payload)]"
  by (cases payload) (auto simp: FormSchema_safeParse_def)

lemma safeParse_accepts_shape:
  "(\<exists>d. FormSchema_safeParse payload = Inr d) \<longleftrightarrow> has_form_shape payload"
proof (cases payload)
  case (JObject kvs)
  show ?thesis
  proof
    assume "\<exists>d. FormSchema_safeParse payload = Inr d"
    then obtain d where "FormSchema_safeParse (JObject kvs) = Inr d"
      using JObject by auto
    then show "has_form_shape payload"
      using JObject
      by (simp add: safeParse_object_accepts z_string_accepts z_string_min_max_accepts
          z_literal_optional_accepts has_form_shape_def name_ok_def string_ok_def marker_ok_def)
        auto
  next
    assume "has_form_shape payload"
    then obtain n t a where
      n: "property kvs ''name'' = JString n" "3 \<le> length n" "length n \<le> 100" and
      t: "property kvs ''templateId'' = JString t" and
      m: "marker_ok (property kvs ''private'')" and
      a: "property kvs ''appAuthorizationId'' = JString a"
      using JObject
      by (auto simp: has_form_shape_def name_ok_def string_ok_def split: jsvalue.splits)
    define p where "p = (if property kvs ''private'' = JUndefined then None else Some ''on'')"
    have "FormSchema_safeParse (JObject kvs) =
            Inr \<lparr>name = n, templateId = t, private_field = p, appAuthorizationId = a\<rparr>"
      using n t m a
      by (auto simp: safeParse_object_accepts z_string_accepts z_string_min_max_accepts
          z_literal_optional_accepts marker_ok_def p_def)
    then show "\<exists>d. FormSchema_safeParse payload = Inr d"
      using JObject by blast
  qed
qed (simp_all add: FormSchema_safeParse_def has_form_shape_def)

lemma safeParse_issue_paths:
  assumes "FormSchema_safeParse (JObject kvs) = Inl is"
  shows "map issue_path is = map (\<lambda>k. [k]) (violated_keys kvs)"
  unfolding safeParse_object_issues [OF assms] violated_keys_def
  by (simp add: name_issues_path z_string_issues marker_issues)

lemma safeParse_issues_not_Nil:
  assumes "FormSchema_safeParse payload = Inl is"
  shows "is \<noteq> []"
proof (cases payload)
  case (JObject kvs)
  have "\<not> has_form_shape payload"
    using assms safeParse_accepts_shape [of payload] by auto
  then have "violated_keys kvs \<noteq> []"
    using JObject by (auto simp: has_form_shape_def violated_keys_def)
  moreover have "map issue_path is = map (\<lambda>k. [k]) (violated_keys kvs)"
    using assms JObject by (simp add: safeParse_issue_paths)
  ultimately show ?thesis by auto
qed (use assms in \<open>auto simp: FormSchema_safeParse_def\<close>)

section \<open>The twelve paths through \<open>call\<close>\<close>

text \<open>One lemma for each \<open>return\<close> of the source and for each place where it can throw.\<close>

lemma call_invalid_payload:
  "FormSchema_safeParse payload = Inl is \<Longrightarrow>
   call env userId organizationSlug payload =
     (Returns (Error (generateErrorMessage env is)),
      [])"
  by (simp add: call_def Let_def)

lemma call_authorization_rejected:
  "FormSchema_safeParse payload = Inr d \<Longrightarrow>
   gitHubAppAuthorization_findUnique env (appAuthorizationId d) = Throws e \<Longrightarrow>
   call env userId organizationSlug payload =
     (Throws e,
      [Read_GitHubAppAuthorization (appAuthorizationId d)])"
  by (simp add: call_def Let_def)

lemma call_no_authorization:
  "FormSchema_safeParse payload = Inr d \<Longrightarrow>
   gitHubAppAuthorization_findUnique env (appAuthorizationId d) = Returns None \<Longrightarrow>
   call env userId organizationSlug payload =
     (Returns (Error ''App authorization not found''),
      [Read_GitHubAppAuthorization (appAuthorizationId d)])"
  by (simp add: call_def Let_def)

lemma call_template_rejected:
  "FormSchema_safeParse payload = Inr d \<Longrightarrow>
   gitHubAppAuthorization_findUnique env (appAuthorizationId d) = Returns (Some a) \<Longrightarrow>
   template_findUnique env (templateId d) = Throws e \<Longrightarrow>
   call env userId organizationSlug payload =
     (Throws e,
      [Read_GitHubAppAuthorization (appAuthorizationId d),
       Read_Template (templateId d)])"
  by (simp add: call_def Let_def)

lemma call_no_template:
  "FormSchema_safeParse payload = Inr d \<Longrightarrow>
   gitHubAppAuthorization_findUnique env (appAuthorizationId d) = Returns (Some a) \<Longrightarrow>
   template_findUnique env (templateId d) = Returns None \<Longrightarrow>
   call env userId organizationSlug payload =
     (Returns (Error ''Template not found''),
      [Read_GitHubAppAuthorization (appAuthorizationId d),
       Read_Template (templateId d)])"
  by (simp add: call_def Let_def)

lemma call_not_configured:
  "FormSchema_safeParse payload = Inr d \<Longrightarrow>
   gitHubAppAuthorization_findUnique env (appAuthorizationId d) = Returns (Some a) \<Longrightarrow>
   template_findUnique env (templateId d) = Returns (Some t) \<Longrightarrow>
   \<not> octokit env \<Longrightarrow>
   call env userId organizationSlug payload =
     (Returns (Error ''GitHub App not configured''),
      [Read_GitHubAppAuthorization (appAuthorizationId d),
       Read_Template (templateId d)])"
  by (simp add: call_def Let_def)

lemma call_bad_account:
  "FormSchema_safeParse payload = Inr d \<Longrightarrow>
   gitHubAppAuthorization_findUnique env (appAuthorizationId d) = Returns (Some a) \<Longrightarrow>
   template_findUnique env (templateId d) = Returns (Some t) \<Longrightarrow>
   octokit env \<Longrightarrow>
   AccountSchema_safeParse env (account a) = None \<Longrightarrow>
   call env userId organizationSlug payload =
     (Returns (Error ''Account not found''),
      [Read_GitHubAppAuthorization (appAuthorizationId d),
       Read_Template (templateId d)])"
  by (simp add: call_def Let_def)

lemma call_bad_url:
  "FormSchema_safeParse payload = Inr d \<Longrightarrow>
   gitHubAppAuthorization_findUnique env (appAuthorizationId d) = Returns (Some a) \<Longrightarrow>
   template_findUnique env (templateId d) = Returns (Some t) \<Longrightarrow>
   octokit env \<Longrightarrow>
   AccountSchema_safeParse env (account a) = Some acct \<Longrightarrow>
   URL_new env (repositoryUrl t) = Throws e \<Longrightarrow>
   call env userId organizationSlug payload =
     (Throws e,
      [Read_GitHubAppAuthorization (appAuthorizationId d),
       Read_Template (templateId d)])"
  by (simp add: call_def Let_def)

lemma call_repository_rejected:
  "FormSchema_safeParse payload = Inr d \<Longrightarrow>
   gitHubAppAuthorization_findUnique env (appAuthorizationId d) = Returns (Some a) \<Longrightarrow>
   template_findUnique env (templateId d) = Returns (Some t) \<Longrightarrow>
   octokit env \<Longrightarrow>
   AccountSchema_safeParse env (account a) = Some acct \<Longrightarrow>
   URL_new env (repositoryUrl t) = Returns url \<Longrightarrow>
   createRepositoryFromTemplate env (repositoryParams d acct url) (installationId a) = Throws e \<Longrightarrow>
   call env userId organizationSlug payload =
     (Throws e,
      [Read_GitHubAppAuthorization (appAuthorizationId d),
       Read_Template (templateId d),
       Call_createRepositoryFromTemplate (repositoryParams d acct url) (installationId a)])"
  by (simp add: call_def Let_def)

lemma call_no_repository:
  "FormSchema_safeParse payload = Inr d \<Longrightarrow>
   gitHubAppAuthorization_findUnique env (appAuthorizationId d) = Returns (Some a) \<Longrightarrow>
   template_findUnique env (templateId d) = Returns (Some t) \<Longrightarrow>
   octokit env \<Longrightarrow>
   AccountSchema_safeParse env (account a) = Some acct \<Longrightarrow>
   URL_new env (repositoryUrl t) = Returns url \<Longrightarrow>
   createRepositoryFromTemplate env (repositoryParams d acct url) (installationId a) = Returns None \<Longrightarrow>
   call env userId organizationSlug payload =
     (Returns (Error ''Failed to create repository''),
      [Read_GitHubAppAuthorization (appAuthorizationId d),
       Read_Template (templateId d),
       Call_createRepositoryFromTemplate (repositoryParams d acct url) (installationId a)])"
  by (simp add: call_def Let_def)

lemma call_create_rejected:
  "FormSchema_safeParse payload = Inr d \<Longrightarrow>
   gitHubAppAuthorization_findUnique env (appAuthorizationId d) = Returns (Some a) \<Longrightarrow>
   template_findUnique env (templateId d) = Returns (Some t) \<Longrightarrow>
   octokit env \<Longrightarrow>
   AccountSchema_safeParse env (account a) = Some acct \<Longrightarrow>
   URL_new env (repositoryUrl t) = Returns url \<Longrightarrow>
   createRepositoryFromTemplate env (repositoryParams d acct url) (installationId a) = Returns (Some repo) \<Longrightarrow>
   organizationTemplate_create env (createInput d organizationSlug repo) = Throws e \<Longrightarrow>
   call env userId organizationSlug payload =
     (Throws e,
      [Read_GitHubAppAuthorization (appAuthorizationId d),
       Read_Template (templateId d),
       Call_createRepositoryFromTemplate (repositoryParams d acct url) (installationId a),
       Write_OrganizationTemplate (createInput d organizationSlug repo)])"
  by (simp add: call_def Let_def)

lemma call_created:
  "FormSchema_safeParse payload = Inr d \<Longrightarrow>
   gitHubAppAuthorization_findUnique env (appAuthorizationId d) = Returns (Some a) \<Longrightarrow>
   template_findUnique env (templateId d) = Returns (Some t) \<Longrightarrow>
   octokit env \<Longrightarrow>
   AccountSchema_safeParse env (account a) = Some acct \<Longrightarrow>
   URL_new env (repositoryUrl t) = Returns url \<Longrightarrow>
   createRepositoryFromTemplate env (repositoryParams d acct url) (installationId a) = Returns (Some repo) \<Longrightarrow>
   organizationTemplate_create env (createInput d organizationSlug repo) = Returns row \<Longrightarrow>
   call env userId organizationSlug payload =
     (Returns (Success row),
      [Read_GitHubAppAuthorization (appAuthorizationId d),
       Read_Template (templateId d),
       Call_createRepositoryFromTemplate (repositoryParams d acct url) (installationId a),
       Write_OrganizationTemplate (createInput d organizationSlug repo)])"
  by (simp add: call_def Let_def)

text \<open>Once the repository exists, the create is issued and its completion is that of \<open>call\<close>.\<close>

lemma call_repository_made:
  "FormSchema_safeParse payload = Inr d \<Longrightarrow>
   gitHubAppAuthorization_findUnique env (appAuthorizationId d) = Returns (Some a) \<Longrightarrow>
   template_findUnique env (templateId d) = Returns (Some t) \<Longrightarrow>
   octokit env \<Longrightarrow>
   AccountSchema_safeParse env (account a) = Some acct \<Longrightarrow>
   URL_new env (repositoryUrl t) = Returns url \<Longrightarrow>
   createRepositoryFromTemplate env (repositoryParams d acct url) (installationId a) = Returns (Some repo) \<Longrightarrow>
   call env userId organizationSlug payload =
     ((case organizationTemplate_create env (createInput d organizationSlug repo) of
         Returns row \<Rightarrow> Returns (Success row)
       | Throws e \<Rightarrow> Throws e),
      [Read_GitHubAppAuthorization (appAuthorizationId d),
       Read_Template (templateId d),
       Call_createRepositoryFromTemplate (repositoryParams d acct url) (installationId a),
       Write_OrganizationTemplate (createInput d organizationSlug repo)])"
  by (simp add: call_def Let_def split: completion.splits)

text \<open>Every invocation takes exactly one of the twelve paths.\<close>

lemma call_paths:
  fixes env :: "'ot env" and payload :: jsvalue and organizationSlug :: string
  obtains
    (invalid_payload) "is" where
      "FormSchema_safeParse payload = Inl is"
  | (authorization_rejected) d e where
      "FormSchema_safeParse payload = Inr d"
      "gitHubAppAuthorization_findUnique env (appAuthorizationId d) = Throws e"
  | (no_authorization) d where
      "FormSchema_safeParse payload = Inr d"
      "gitHubAppAuthorization_findUnique env (appAuthorizationId d) = Returns None"
  | (template_rejected) d a e where
      "FormSchema_safeParse payload = Inr d"
      "gitHubAppAuthorization_findUnique env (appAuthorizationId d) = Returns (Some a)"
      "template_findUnique env (templateId d) = Throws e"
  | (no_template) d a where
      "FormSchema_safeParse payload = Inr d"
      "gitHubAppAuthorization_findUnique env (appAuthorizationId d) = Returns (Some a)"
      "template_findUnique env (templateId d) = Returns None"
  | (not_configured) d a t where
      "FormSchema_safeParse payload = Inr d"
      "gitHubAppAuthorization_findUnique env (appAuthorizationId d) = Returns (Some a)"
      "template_findUnique env (templateId d) = Returns (Some t)"
      "\<not> octokit env"
  | (bad_account) d a t where
      "FormSchema_safeParse payload = Inr d"
      "gitHubAppAuthorization_findUnique env (appAuthorizationId d) = Returns (Some a)"
      "template_findUnique env (templateId d) = Returns (Some t)"
      "octokit env"
      "AccountSchema_safeParse env (account a) = None"
  | (bad_url) d a t acct e where
      "FormSchema_safeParse payload = Inr d"
      "gitHubAppAuthorization_findUnique env (appAuthorizationId d) = Returns (Some a)"
      "template_findUnique env (templateId d) = Returns (Some t)"
      "octokit env"
      "AccountSchema_safeParse env (account a) = Some acct"
      "URL_new env (repositoryUrl t) = Throws e"
  | (repository_rejected) d a t acct url e where
      "FormSchema_safeParse payload = Inr d"
      "gitHubAppAuthorization_findUnique env (appAuthorizationId d) = Returns (Some a)"
      "template_findUnique env (templateId d) = Returns (Some t)"
      "octokit env"
      "AccountSchema_safeParse env (account a) = Some acct"
      "URL_new env (repositoryUrl t) = Returns url"
      "createRepositoryFromTemplate env (repositoryParams d acct url) (installationId a) = Throws e"
  | (no_repository) d a t acct url where
      "FormSchema_safeParse payload = Inr d"
      "gitHubAppAuthorization_findUnique env (appAuthorizationId d) = Returns (Some a)"
      "template_findUnique env (templateId d) = Returns (Some t)"
      "octokit env"
      "AccountSchema_safeParse env (account a) = Some acct"
      "URL_new env (repositoryUrl t) = Returns url"
      "createRepositoryFromTemplate env (repositoryParams d acct url) (installationId a) = Returns None"
  | (create_rejected) d a t acct url repo e where
      "FormSchema_safeParse payload = Inr d"
      "gitHubAppAuthorization_findUnique env (appAuthorizationId d) = Returns (Some a)"
      "template_findUnique env (templateId d) = Returns (Some t)"
      "octokit env"
      "AccountSchema_safeParse env (account a) = Some acct"
      "URL_new env (repositoryUrl t) = Returns url"
      "createRepositoryFromTemplate env (repositoryParams d acct url) (installationId a) = Returns (Some repo)"
      "organizationTemplate_create env (createInput d organizationSlug repo) = Throws e"
  | (created) d a t acct url repo row where
      "FormSchema_safeParse payload = Inr d"
      "gitHubAppAuthorization_findUnique env (appAuthorizationId d) = Returns (Some a)"
      "template_findUnique env (templateId d) = Returns (Some t)"
      "octokit env"
      "AccountSchema_safeParse env (account a) = Some acct"
      "URL_new env (repositoryUrl t) = Returns url"
      "createRepositoryFromTemplate env (repositoryParams d acct url) (installationId a) = Returns (Some repo)"
      "organizationTemplate_create env (createInput d organizationSlug repo) = Returns row"
proof (cases "FormSchema_safeParse payload")
  case (Inl "is")
  then show ?thesis by (rule invalid_payload)
next
  case (Inr d)
  note parsed = this
  show ?thesis
  proof (cases "gitHubAppAuthorization_findUnique env (appAuthorizationId d)")
    case (Throws e)
    with parsed show ?thesis by (rule authorization_rejected)
  next
    case (Returns found)
    show ?thesis
    proof (cases found)
      case None
      with parsed Returns show ?thesis by (simp add: no_authorization)
    next
      case (Some a)
      with Returns have auth: "gitHubAppAuthorization_findUnique env (appAuthorizationId d) = Returns (Some a)"
        by simp
      show ?thesis
      proof (cases "template_findUnique env (templateId d)")
        case (Throws e)
        with parsed auth show ?thesis by (rule template_rejected)
      next
        case (Returns found')
        show ?thesis
        proof (cases found')
          case None
          with parsed auth Returns show ?thesis by (simp add: no_template)
        next
          case (Some t)
          with Returns have tmpl: "template_findUnique env (templateId d) = Returns (Some t)"
            by simp
          show ?thesis
          proof (cases "octokit env")
            case False
            with parsed auth tmpl show ?thesis by (rule not_configured)
          next
            case True
            show ?thesis
            proof (cases "AccountSchema_safeParse env (account a)")
              case None
              with parsed auth tmpl True show ?thesis by (rule bad_account)
            next
              case (Some acct)
              note acc = this
              show ?thesis
              proof (cases "URL_new env (repositoryUrl t)")
                case (Throws e)
                with parsed auth tmpl True acc show ?thesis by (rule bad_url)
              next
                case (Returns url)
                note parsedUrl = this
                show ?thesis
                proof (cases "createRepositoryFromTemplate env (repositoryParams d acct url) (installationId a)")
                  case (Throws e)
                  with parsed auth tmpl True acc parsedUrl show ?thesis by (rule repository_rejected)
                next
                  case (Returns answer)
                  show ?thesis
                  proof (cases answer)
                    case None
                    with parsed auth tmpl True acc parsedUrl Returns show ?thesis
                      by (simp add: no_repository)
                  next
                    case (Some repo)
                    with Returns have made:
                      "createRepositoryFromTemplate env (repositoryParams d acct url) (installationId a)
                         = Returns (Some repo)"
                      by simp
                    show ?thesis
                    proof (cases "organizationTemplate_create env (createInput d organizationSlug repo)")
                      case (Throws e)
                      with parsed auth tmpl True acc parsedUrl made show ?thesis by (rule create_rejected)
                    next
                      case (Returns row)
                      with parsed auth tmpl True acc parsedUrl made show ?thesis by (rule created)
                    qed
                  qed
                qed
              qed
            qed
          qed
        qed
      qed
    qed
  qed
qed

lemma safeParse_Inr_payload:
  assumes "FormSchema_safeParse payload = Inr d"
  obtains kvs where "payload = JObject kvs"
    and "property kvs ''name'' = JString (name d)"
    and "property kvs ''templateId'' = JString (templateId d)"
    and "property kvs ''appAuthorizationId'' = JString (appAuthorizationId d)"
    and "private_field d = Some ''on'' \<longleftrightarrow> property kvs ''private'' = JString ''on''"
    and "private_field d = Some ''on'' \<longleftrightarrow> property kvs ''private'' \<noteq> JUndefined"
proof (cases payload)
  case (JObject kvs)
  with assms have "FormSchema_safeParse (JObject kvs) = Inr d" by simp
  then have "property kvs ''name'' = JString (name d)"
    "property kvs ''templateId'' = JString (templateId d)"
    "property kvs ''appAuthorizationId'' = JString (appAuthorizationId d)"
    "private_field d = Some ''on'' \<longleftrightarrow> property kvs ''private'' = JString ''on''"
    "private_field d = Some ''on'' \<longleftrightarrow> property kvs ''private'' \<noteq> JUndefined"
    by (auto simp: safeParse_object_accepts z_string_accepts z_string_min_max_accepts
        z_literal_optional_accepts)
  with JObject show ?thesis by (rule that)
qed (use assms in \<open>simp_all add: FormSchema_safeParse_def\<close>)

section \<open>Splitting a serialised path\<close>

lemma split_not_Nil: "split s sep \<noteq> []"
  by (induction s) (auto split: list.splits)

lemma split_without_sep: "sep \<notin> set s \<Longrightarrow> split s sep = [s]"
  by (induction s) auto

lemma split_append_sep:
  "sep \<notin> set s \<Longrightarrow> split (s @ sep # rest) sep = s # split rest sep"
  by (induction s) (auto simp: split_not_Nil split: list.splits)

lemma split_serialized_tail:
  "slash_free (s # segs) \<Longrightarrow>
   split (s @ concat (map (\<lambda>s. CHR ''/'' # s) segs)) CHR ''/'' = s # segs"
proof (induction segs arbitrary: s)
  case Nil
  then show ?case by (simp add: slash_free_def split_without_sep)
next
  case (Cons x xs)
  from Cons.prems have s: "CHR ''/'' \<notin> set s" and rest: "slash_free (x # xs)"
    by (simp_all add: slash_free_def)
  have "split (s @ CHR ''/'' # (x @ concat (map (\<lambda>s. CHR ''/'' # s) xs))) CHR ''/''
        = s # split (x @ concat (map (\<lambda>s. CHR ''/'' # s) xs)) CHR ''/''"
    using s by (rule split_append_sep)
  with Cons.IH [OF rest] show ?case by simp
qed

lemma slice_split_serialize:
  assumes "slash_free segs"
  shows "slice (split (serialize_path (ListPath segs)) CHR ''/'') 1 = segs"
proof (cases segs)
  case Nil
  then show ?thesis by (simp add: slice_def)
next
  case (Cons s rest)
  with assms have "split (s @ concat (map (\<lambda>s. CHR ''/'' # s) rest)) CHR ''/'' = s # rest"
    by (simp add: split_serialized_tail)
  with Cons show ?thesis by (simp add: slice_def)
qed

lemma owner_and_repo_list_path:
  assumes "path u = ListPath segs" and "slash_free segs"
  shows "owner_and_repo u = (element segs 0, element segs 1)"
  using slice_split_serialize [OF assms(2)] assms(1)
  by (simp add: owner_and_repo_def pathname_def)

section \<open>Runs in the sample environment\<close>

lemmas sample_defs =
  sample_env_def sample_findAuthorization_def sample_findTemplate_def sample_AccountSchema_def
  sample_URL_new_def sample_repository_def sample_createRepository_def sample_create_def
  sample_payload_def

lemmas schema_defs =
  FormSchema_safeParse_def z_string_def z_string_min_max_def z_literal_optional_def property_def

lemmas call_defs =
  call_def repositoryParams_def createInput_def owner_and_repo_def pathname_def slice_def
  element_def Let_def

lemma sample_payload_parsed:
  "3 \<le> length n \<Longrightarrow> length n \<le> 100 \<Longrightarrow>
   FormSchema_safeParse (sample_payload n t a) =
     Inr \<lparr>name = n, templateId = t, private_field = Some ''on'', appAuthorizationId = a\<rparr>"
  by (simp add: sample_payload_def schema_defs)

lemma sample_run_success:
  "call sample_env u ''acme'' (sample_payload ''my-repo'' ''tpl_1'' ''auth_1'') =
     (Returns (Success (''ot_1'',
        \<lparr>name_data = ''my-repo'',
         repositoryUrl_data = ''https://github.com/acme-org/my-repo'',
         repositoryData = \<lparr>html_url = ''https://github.com/acme-org/my-repo'',
                           response = JObject [(''id'', JNumber 7)]\<rparr>,
         template_connect_id = ''tpl_1'', private_data = True,
         organization_connect_slug = ''acme'',
         authorization_connect_id = ''auth_1''\<rparr>)),
      [Read_GitHubAppAuthorization ''auth_1'', Read_Template ''tpl_1'',
       Call_createRepositoryFromTemplate
         \<lparr>template_owner = Some ''acme'', template_repo = Some ''base-starter'',
          owner = ''acme-org'', name_param = ''my-repo'', private_param = True\<rparr> 42,
       Write_OrganizationTemplate
         \<lparr>name_data = ''my-repo'',
          repositoryUrl_data = ''https://github.com/acme-org/my-repo'',
          repositoryData = \<lparr>html_url = ''https://github.com/acme-org/my-repo'',
                            response = JObject [(''id'', JNumber 7)]\<rparr>,
          template_connect_id = ''tpl_1'', private_data = True,
          organization_connect_slug = ''acme'',
          authorization_connect_id = ''auth_1''\<rparr>])"
  by (simp add: call_defs sample_defs schema_defs)

lemma sample_run_unknown_slug:
  "call sample_env u ''no-such-org'' (sample_payload ''my-repo'' ''tpl_1'' ''auth_1'') =
     (Throws (Rejected ''No Organization found''),
      [Read_GitHubAppAuthorization ''auth_1'', Read_Template ''tpl_1'',
       Call_createRepositoryFromTemplate
         \<lparr>template_owner = Some ''acme'', template_repo = Some ''base-starter'',
          owner = ''acme-org'', name_param = ''my-repo'', private_param = True\<rparr> 42,
       Write_OrganizationTemplate
         \<lparr>name_data = ''my-repo'',
          repositoryUrl_data = ''https://github.com/acme-org/my-repo'',
          repositoryData = \<lparr>html_url = ''https://github.com/acme-org/my-repo'',
                            response = JObject [(''id'', JNumber 7)]\<rparr>,
          template_connect_id = ''tpl_1'', private_data = True,
          organization_connect_slug = ''no-such-org'',
          authorization_connect_id = ''auth_1''\<rparr>])"
  by (simp add: call_defs sample_defs schema_defs)

lemma sample_run_taken:
  "call sample_env u s (sample_payload ''taken'' ''tpl_1'' ''auth_1'') =
     (Returns (Error ''Failed to create repository''),
      [Read_GitHubAppAuthorization ''auth_1'', Read_Template ''tpl_1'',
       Call_createRepositoryFromTemplate
         \<lparr>template_owner = Some ''acme'', template_repo = Some ''base-starter'',
          owner = ''acme-org'', name_param = ''taken'', private_param = True\<rparr> 42])"
  by (simp add: call_defs sample_defs schema_defs)

section \<open>What is persisted, and when the create is issued\<close>

text \<open>
  C1 says that an OrganizationTemplate record is persisted if and only if the external
  create-repository-from-template call succeeds.  The create at lines 116--139 is
  awaited outside any \<open>try\<close>, and the organization slug it connects by is checked
  nowhere before: when the create rejects, the repository exists and no record does.

  C1, counterexample: in the sample environment the slug \<open>no-such-org\<close> belongs to no
  organization.  The external call was issued and returned a repository, nothing is
  persisted, and \<open>call\<close> rejects.
\<close>

theorem repository_created_but_nothing_persisted:
  "createRepositoryFromTemplate sample_env
     \<lparr>template_owner = Some ''acme'', template_repo = Some ''base-starter'',
      owner = ''acme-org'', name_param = ''my-repo'', private_param = True\<rparr> 42 =
     Returns (Some (sample_repository ''acme-org'' ''my-repo'')) \<and>
   Call_createRepositoryFromTemplate
     \<lparr>template_owner = Some ''acme'', template_repo = Some ''base-starter'',
      owner = ''acme-org'', name_param = ''my-repo'', private_param = True\<rparr> 42
     \<in> set (snd (call sample_env ''user_1'' ''no-such-org''
                    (sample_payload ''my-repo'' ''tpl_1'' ''auth_1''))) \<and>
   persisted sample_env
     (snd (call sample_env ''user_1'' ''no-such-org''
             (sample_payload ''my-repo'' ''tpl_1'' ''auth_1''))) = [] \<and>
   fst (call sample_env ''user_1'' ''no-such-org'' (sample_payload ''my-repo'' ''tpl_1'' ''auth_1'')) =
     Throws (Rejected ''No Organization found'')"
  by (simp add: sample_run_unknown_slug persisted_def)
    (simp add: sample_defs)

text \<open>
  C1, as amended: for the outcome and the effects of any invocation, the create is
  issued exactly when the external call was issued and returned a repository; it is
  then the last effect and the only write, and its completion is that of \<open>call\<close>
  (success with the created row, or its rejection).  What is persisted is exactly the
  row of a success outcome: a record is persisted if and only if the external call
  succeeds and the create completes.  An invocation that returns an error (invalid
  payload, missing authorization, missing template, unconfigured client, invalid
  account, failed external call) issues no write.
\<close>

theorem persisted_iff_repository_and_create:
  assumes "call env userId organizationSlug payload = (outcome, trace)"
  shows "(filter is_write trace \<noteq> [] \<longleftrightarrow>
            (\<exists>ps i repo. Call_createRepositoryFromTemplate ps i \<in> set trace \<and>
                           createRepositoryFromTemplate env ps i = Returns (Some repo))) \<and>
         (filter is_write trace \<noteq> [] \<longrightarrow>
            (\<exists>d reads. trace = reads @ [Write_OrganizationTemplate d] \<and>
                        filter is_write reads = [] \<and>
                        outcome = (case organizationTemplate_create env d of
                                     Returns row \<Rightarrow> Returns (Success row)
                                   | Throws e \<Rightarrow> Throws e))) \<and>
         persisted env trace =
           (case outcome of Returns (Success row) \<Rightarrow> [row] | _ \<Rightarrow> []) \<and>
         (\<forall>m. outcome = Returns (Error m) \<longrightarrow> filter is_write trace = [])"
proof (cases rule: call_paths
    [where env = env and payload = payload and organizationSlug = organizationSlug])
  case (invalid_payload "is")
  with assms show ?thesis by (auto simp: call_invalid_payload persisted_def)
next
  case (authorization_rejected d e)
  with assms show ?thesis by (auto simp: call_authorization_rejected persisted_def)
next
  case (no_authorization d)
  with assms show ?thesis by (auto simp: call_no_authorization persisted_def)
next
  case (template_rejected d a e)
  with assms show ?thesis by (auto simp: call_template_rejected persisted_def)
next
  case (no_template d a)
  with assms show ?thesis by (auto simp: call_no_template persisted_def)
next
  case (not_configured d a t)
  with assms show ?thesis by (auto simp: call_not_configured persisted_def)
next
  case (bad_account d a t)
  with assms show ?thesis by (auto simp: call_bad_account persisted_def)
next
  case (bad_url d a t acct e)
  with assms show ?thesis by (auto simp: call_bad_url persisted_def)
next
  case (repository_rejected d a t acct url e)
  with assms show ?thesis by (auto simp: call_repository_rejected persisted_def)
next
  case (no_repository d a t acct url)
  with assms show ?thesis by (auto simp: call_no_repository persisted_def)
next
  case (create_rejected d a t acct url repo e)
  let ?reads = "[Read_GitHubAppAuthorization (appAuthorizationId d), Read_Template (templateId d),
       Call_createRepositoryFromTemplate (repositoryParams d acct url) (installationId a)]"
  let ?data = "createInput d organizationSlug repo"
  from create_rejected assms
  have tr: "trace = ?reads @ [Write_OrganizationTemplate ?data]" and out: "outcome = Throws e"
    by (simp_all add: call_create_rejected)
  have made: "\<exists>ps i repo. Call_createRepositoryFromTemplate ps i \<in> set trace \<and>
                createRepositoryFromTemplate env ps i = Returns (Some repo)"
    using tr create_rejected(7) by auto
  have last: "\<exists>d reads. trace = reads @ [Write_OrganizationTemplate d] \<and>
                filter is_write reads = [] \<and>
                outcome = (case organizationTemplate_create env d of
                             Returns row \<Rightarrow> Returns (Success row) | Throws e \<Rightarrow> Throws e)"
    using tr out create_rejected(8)
    by (intro exI [of _ ?data] exI [of _ ?reads]) simp
  have "persisted env trace = []"
    using tr create_rejected(8) by (simp add: persisted_def)
  moreover have "filter is_write trace \<noteq> []" using tr by simp
  ultimately show ?thesis using made last out by simp
next
  case (created d a t acct url repo row)
  let ?reads = "[Read_GitHubAppAuthorization (appAuthorizationId d), Read_Template (templateId d),
       Call_createRepositoryFromTemplate (repositoryParams d acct url) (installationId a)]"
  let ?data = "createInput d organizationSlug repo"
  from created assms
  have tr: "trace = ?reads @ [Write_OrganizationTemplate ?data]"
    and out: "outcome = Returns (Success row)"
    by (simp_all add: call_created)
  have made: "\<exists>ps i repo. Call_createRepositoryFromTemplate ps i \<in> set trace \<and>
                createRepositoryFromTemplate env ps i = Returns (Some repo)"
    using tr created(7) by auto
  have last: "\<exists>d reads. trace = reads @ [Write_OrganizationTemplate d] \<and>
                filter is_write reads = [] \<and>
                outcome = (case organizationTemplate_create env d of
                             Returns row \<Rightarrow> Returns (Success row) | Throws e \<Rightarrow> Throws e)"
    using tr out created(8)
    by (intro exI [of _ ?data] exI [of _ ?reads]) simp
  have "persisted env trace = [row]"
    using tr created(8) by (simp add: persisted_def)
  moreover have "filter is_write trace \<noteq> []" using tr by simp
  ultimately show ?thesis using made last out by simp
qed

text \<open>
  C1, witness: in the sample environment the run for the organization \<open>acme\<close> persists
  its one row, the run for \<open>no-such-org\<close> persists nothing, and the run for the name
  \<open>taken\<close> (where the repository call fails) issues no write.
\<close>

theorem persisted_iff_repository_and_create_witness:
  "persisted sample_env
     (snd (call sample_env ''user_1'' ''acme'' (sample_payload ''my-repo'' ''tpl_1'' ''auth_1''))) =
     [(''ot_1'', createInput \<lparr>name = ''my-repo'', templateId = ''tpl_1'', private_field = Some ''on'',
                               appAuthorizationId = ''auth_1''\<rparr> ''acme''
                   (sample_repository ''acme-org'' ''my-repo''))] \<and>
   persisted sample_env
     (snd (call sample_env ''user_1'' ''no-such-org'' (sample_payload ''my-repo'' ''tpl_1'' ''auth_1''))) = [] \<and>
   filter is_write
     (snd (call sample_env ''user_1'' ''acme'' (sample_payload ''taken'' ''tpl_1'' ''auth_1''))) = []"
  using persisted_iff_repository_and_create [OF sample_run_success [of "''user_1''"]]
    persisted_iff_repository_and_create [OF sample_run_unknown_slug [of "''user_1''"]]
    persisted_iff_repository_and_create [OF sample_run_taken [of "''user_1''" "''acme''"]]
  by (simp add: sample_run_success sample_run_unknown_slug sample_run_taken createInput_def
      sample_repository_def)

section \<open>The record that is created\<close>

text \<open>
  C2 says that for a valid payload, when both lookups succeed, the client is
  configured, the account parses and the external call returns a repository, \<open>call\<close>
  returns a success.  The create that follows can still reject.

  C2, counterexample: all of the claim's conditions hold in the sample environment,
  the slug is \<open>no-such-org\<close>, and \<open>call\<close> rejects after the external call.
\<close>

theorem all_conditions_met_but_call_rejects:
  "FormSchema_safeParse (sample_payload ''my-repo'' ''tpl_1'' ''auth_1'') =
     Inr \<lparr>name = ''my-repo'', templateId = ''tpl_1'', private_field = Some ''on'',
          appAuthorizationId = ''auth_1''\<rparr> \<and>
   gitHubAppAuthorization_findUnique sample_env ''auth_1'' =
     Returns (Some \<lparr>installationId = 42, account = JObject [(''login'', JString ''acme-org'')]\<rparr>) \<and>
   template_findUnique sample_env ''tpl_1'' =
     Returns (Some \<lparr>repositoryUrl = ''https://github.com/acme/base-starter''\<rparr>) \<and>
   octokit sample_env \<and>
   AccountSchema_safeParse sample_env (JObject [(''login'', JString ''acme-org'')]) =
     Some \<lparr>login = ''acme-org''\<rparr> \<and>
   createRepositoryFromTemplate sample_env
     \<lparr>template_owner = Some ''acme'', template_repo = Some ''base-starter'',
      owner = ''acme-org'', name_param = ''my-repo'', private_param = True\<rparr> 42 =
     Returns (Some (sample_repository ''acme-org'' ''my-repo'')) \<and>
   take 3 (snd (call sample_env ''user_1'' ''no-such-org''
                  (sample_payload ''my-repo'' ''tpl_1'' ''auth_1''))) =
     [Read_GitHubAppAuthorization ''auth_1'', Read_Template ''tpl_1'',
      Call_createRepositoryFromTemplate
        \<lparr>template_owner = Some ''acme'', template_repo = Some ''base-starter'',
         owner = ''acme-org'', name_param = ''my-repo'', private_param = True\<rparr> 42] \<and>
   fst (call sample_env ''user_1'' ''no-such-org'' (sample_payload ''my-repo'' ''tpl_1'' ''auth_1'')) =
     Throws (Rejected ''No Organization found'')"
  by (simp add: sample_run_unknown_slug sample_payload_parsed)
    (simp add: sample_defs property_def)

text \<open>
  C2, as amended: under the claim's conditions (the external call being issued with
  the owner and repository read from the parsed URL) \<open>call\<close> issues the create as its
  last effect and only write, and the create is given: \<open>name\<close> the payload's name,
  \<open>repositoryUrl\<close> the repository's \<open>html_url\<close>, \<open>repositoryData\<close> the whole response,
  \<open>private\<close> true exactly when the payload's \<open>private\<close> marker was present, and the
  relations connected by the payload's \<open>templateId\<close>, by \<open>organizationSlug\<close> and by the
  payload's \<open>appAuthorizationId\<close>.  When the create completes, \<open>call\<close> returns a success
  whose template is the created row; when it rejects, \<open>call\<close> rejects with the same error.
\<close>

theorem create_input_from_payload:
  assumes "FormSchema_safeParse payload = Inr d"
    and "gitHubAppAuthorization_findUnique env (appAuthorizationId d) = Returns (Some a)"
    and "template_findUnique env (templateId d) = Returns (Some t)"
    and "octokit env"
    and "AccountSchema_safeParse env (account a) = Some acct"
    and "URL_new env (repositoryUrl t) = Returns url"
    and "createRepositoryFromTemplate env (repositoryParams d acct url) (installationId a)
           = Returns (Some repo)"
  shows "\<exists>kvs data reads.
           payload = JObject kvs \<and>
           snd (call env userId organizationSlug payload) =
             reads @ [Write_OrganizationTemplate data] \<and>
           filter is_write reads = [] \<and>
           fst (call env userId organizationSlug payload) =
             (case organizationTemplate_create env data of
                Returns row \<Rightarrow> Returns (Success row)
              | Throws e \<Rightarrow> Throws e) \<and>
           JString (name_data data) = property kvs ''name'' \<and>
           repositoryUrl_data data = html_url repo \<and>
           repositoryData data = repo \<and>
           private_data data = (property kvs ''private'' = JString ''on'') \<and>
           private_data data = (property kvs ''private'' \<noteq> JUndefined) \<and>
           JString (template_connect_id data) = property kvs ''templateId'' \<and>
           organization_connect_slug data = organizationSlug \<and>
           JString (authorization_connect_id data) = property kvs ''appAuthorizationId''"
proof -
  from assms(1) obtain kvs where kvs: "payload = JObject kvs"
    "property kvs ''name'' = JString (name d)"
    "property kvs ''templateId'' = JString (templateId d)"
    "property kvs ''appAuthorizationId'' = JString (appAuthorizationId d)"
    "private_field d = Some ''on'' \<longleftrightarrow> property kvs ''private'' = JString ''on''"
    "private_field d = Some ''on'' \<longleftrightarrow> property kvs ''private'' \<noteq> JUndefined"
    by (rule safeParse_Inr_payload)
  let ?data = "createInput d organizationSlug repo"
  let ?reads = "[Read_GitHubAppAuthorization (appAuthorizationId d), Read_Template (templateId d),
       Call_createRepositoryFromTemplate (repositoryParams d acct url) (installationId a)]"
  have run: "snd (call env userId organizationSlug payload) =
          ?reads @ [Write_OrganizationTemplate ?data]"
    "filter is_write ?reads = []"
    "fst (call env userId organizationSlug payload) =
       (case organizationTemplate_create env ?data of
          Returns row \<Rightarrow> Returns (Success row) | Throws e \<Rightarrow> Throws e)"
    using call_repository_made [OF assms, of userId organizationSlug] by simp_all
  have fields: "JString (name_data ?data) = property kvs ''name''"
    "repositoryUrl_data ?data = html_url repo" "repositoryData ?data = repo"
    "private_data ?data = (property kvs ''private'' = JString ''on'')"
    "private_data ?data = (property kvs ''private'' \<noteq> JUndefined)"
    "JString (template_connect_id ?data) = property kvs ''templateId''"
    "organization_connect_slug ?data = organizationSlug"
    "JString (authorization_connect_id ?data) = property kvs ''appAuthorizationId''"
    using kvs by (simp_all add: createInput_def)
  show ?thesis
    using kvs(1) run fields
    by (intro exI [of _ kvs] exI [of _ ?data] exI [of _ ?reads] conjI) assumption+
qed

text \<open>C2, witness: the successful run of the sample environment.\<close>

theorem create_input_from_payload_witness:
  "\<exists>kvs data reads.
     sample_payload ''my-repo'' ''tpl_1'' ''auth_1'' = JObject kvs \<and>
     snd (call sample_env ''user_1'' ''acme'' (sample_payload ''my-repo'' ''tpl_1'' ''auth_1'')) =
       reads @ [Write_OrganizationTemplate data] \<and>
     fst (call sample_env ''user_1'' ''acme'' (sample_payload ''my-repo'' ''tpl_1'' ''auth_1'')) =
       Returns (Success (''ot_1'', data)) \<and>
     JString (name_data data) = property kvs ''name'' \<and>
     repositoryUrl_data data = ''https://github.com/acme-org/my-repo'' \<and>
     repositoryData data = sample_repository ''acme-org'' ''my-repo'' \<and>
     private_data data = (property kvs ''private'' = JString ''on'') \<and>
     private_data data = (property kvs ''private'' \<noteq> JUndefined) \<and>
     JString (template_connect_id data) = property kvs ''templateId'' \<and>
     organization_connect_slug data = ''acme'' \<and>
     JString (authorization_connect_id data) = property kvs ''appAuthorizationId''"
proof -
  let ?d = "\<lparr>name = ''my-repo'', templateId = ''tpl_1'', private_field = Some ''on'',
             appAuthorizationId = ''auth_1''\<rparr>"
  let ?a = "\<lparr>installationId = 42, account = JObject [(''login'', JString ''acme-org'')]\<rparr>"
  let ?t = "\<lparr>repositoryUrl = ''https://github.com/acme/base-starter''\<rparr>"
  let ?acct = "\<lparr>login = ''acme-org''\<rparr>"
  let ?url = "\<lparr>path = ListPath [''acme'', ''base-starter'']\<rparr>"
  have 1: "FormSchema_safeParse (sample_payload ''my-repo'' ''tpl_1'' ''auth_1'') = Inr ?d"
    by (simp add: sample_payload_parsed)
  have 2: "gitHubAppAuthorization_findUnique sample_env (appAuthorizationId ?d) = Returns (Some ?a)"
    by (simp add: sample_defs)
  have 3: "template_findUnique sample_env (templateId ?d) = Returns (Some ?t)"
    by (simp add: sample_defs)
  have 4: "octokit sample_env"
    by (simp add: sample_defs)
  have 5: "AccountSchema_safeParse sample_env (account ?a) = Some ?acct"
    by (simp add: sample_defs property_def)
  have 6: "URL_new sample_env (repositoryUrl ?t) = Returns ?url"
    by (simp add: sample_defs)
  have 7: "createRepositoryFromTemplate sample_env (repositoryParams ?d ?acct ?url) (installationId ?a)
             = Returns (Some (sample_repository ''acme-org'' ''my-repo''))"
    by (simp add: sample_defs repositoryParams_def)
  obtain kvs data reads where w:
    "sample_payload ''my-repo'' ''tpl_1'' ''auth_1'' = JObject kvs"
    "snd (call sample_env ''user_1'' ''acme'' (sample_payload ''my-repo'' ''tpl_1'' ''auth_1'')) =
       reads @ [Write_OrganizationTemplate data]"
    "fst (call sample_env ''user_1'' ''acme'' (sample_payload ''my-repo'' ''tpl_1'' ''auth_1'')) =
       (case organizationTemplate_create sample_env data of
          Returns row \<Rightarrow> Returns (Success row) | Throws e \<Rightarrow> Throws e)"
    "JString (name_data data) = property kvs ''name''"
    "repositoryUrl_data data = html_url (sample_repository ''acme-org'' ''my-repo'')"
    "repositoryData data = sample_repository ''acme-org'' ''my-repo''"
    "private_data data = (property kvs ''private'' = JString ''on'')"
    "private_data data = (property kvs ''private'' \<noteq> JUndefined)"
    "JString (template_connect_id data) = property kvs ''templateId''"
    "organization_connect_slug data = ''acme''"
    "JString (authorization_connect_id data) = property kvs ''appAuthorizationId''"
    using create_input_from_payload [OF 1 2 3 4 5 6 7, of "''user_1''" "''acme''"] by blast
  from w(10) have "organizationTemplate_create sample_env data = Returns (''ot_1'', data)"
    by (simp add: sample_env_def sample_create_def)
  with w(3) have "fst (call sample_env ''user_1'' ''acme'' (sample_payload ''my-repo'' ''tpl_1'' ''auth_1'')) =
       Returns (Success (''ot_1'', data))"
    by simp
  moreover from w(5) have "repositoryUrl_data data = ''https://github.com/acme-org/my-repo''"
    by (simp add: sample_repository_def)
  ultimately show ?thesis
    using w(1,2,4,6-11) by (intro exI [of _ kvs] exI [of _ data] exI [of _ reads] conjI) assumption+
qed

section \<open>Which failures become error results, and which are thrown\<close>

text \<open>
  C3 says that \<open>call\<close> always returns a value of the result shape and that no exception
  leaves it.  The function has no \<open>try\<close> block: the \<open>URL\<close> constructor at line 91 throws a
  \<open>TypeError\<close> for a string that is not a URL, and the awaits at lines 48, 62, 98 and 116
  pass a rejection on.

  C3, counterexample: the sample template \<open>tpl_bad\<close> has the repository URL
  \<open>not a url\<close>, and the invocation throws after the two lookups; and for the slug
  \<open>no-such-org\<close> the create rejects, so the invocation throws after all four effects.
\<close>

theorem uncaught_throws_leave_call:
  "call sample_env ''user_1'' ''acme'' (sample_payload ''my-repo'' ''tpl_bad'' ''auth_1'') =
     (Throws (TypeError ''Invalid URL''),
      [Read_GitHubAppAuthorization ''auth_1'', Read_Template ''tpl_bad'']) \<and>
   fst (call sample_env ''user_1'' ''no-such-org'' (sample_payload ''my-repo'' ''tpl_1'' ''auth_1'')) =
     Throws (Rejected ''No Organization found'') \<and>
   length (snd (call sample_env ''user_1'' ''no-such-org''
                  (sample_payload ''my-repo'' ''tpl_1'' ''auth_1''))) = 4"
  by (simp add: sample_run_unknown_slug) (simp add: call_defs sample_defs schema_defs)

text \<open>
  C3, as amended: \<open>call\<close> always terminates, with a result or a throw.  It throws
  exactly when one of its five uncaught operations fails on the way: the authorization
  lookup rejects; or the template lookup rejects; or all four checks pass and the \<open>URL\<close>
  constructor throws; or the repository call rejects; or the repository call returns a
  repository and the create rejects.  What leaves \<open>call\<close> is what that operation threw,
  and the effects are those issued up to and including it (for the constructor: the
  two lookups, and no external call or write).  In every other case \<open>call\<close> returns a
  result; in particular it always returns when none of the five ever fails.
\<close>

theorem call_throws_exactly_at_its_five_uncaught_sites:
  fixes env :: "'ot env"
  shows "(call env userId organizationSlug payload = (Throws e, trace) \<longleftrightarrow>
            (\<exists>d. FormSchema_safeParse payload = Inr d \<and>
               gitHubAppAuthorization_findUnique env (appAuthorizationId d) = Throws e \<and>
               trace = [Read_GitHubAppAuthorization (appAuthorizationId d)]) \<or>
            (\<exists>d a. FormSchema_safeParse payload = Inr d \<and>
               gitHubAppAuthorization_findUnique env (appAuthorizationId d) = Returns (Some a) \<and>
               template_findUnique env (templateId d) = Throws e \<and>
               trace = [Read_GitHubAppAuthorization (appAuthorizationId d),
                        Read_Template (templateId d)]) \<or>
            (\<exists>d a t acct. FormSchema_safeParse payload = Inr d \<and>
               gitHubAppAuthorization_findUnique env (appAuthorizationId d) = Returns (Some a) \<and>
               template_findUnique env (templateId d) = Returns (Some t) \<and>
               octokit env \<and>
               AccountSchema_safeParse env (account a) = Some acct \<and>
               URL_new env (repositoryUrl t) = Throws e \<and>
               trace = [Read_GitHubAppAuthorization (appAuthorizationId d),
                        Read_Template (templateId d)]) \<or>
            (\<exists>d a t acct url. FormSchema_safeParse payload = Inr d \<and>
               gitHubAppAuthorization_findUnique env (appAuthorizationId d) = Returns (Some a) \<and>
               template_findUnique env (templateId d) = Returns (Some t) \<and>
               octokit env \<and>
               AccountSchema_safeParse env (account a) = Some acct \<and>
               URL_new env (repositoryUrl t) = Returns url \<and>
               createRepositoryFromTemplate env (repositoryParams d acct url) (installationId a)
                 = Throws e \<and>
               trace = [Read_GitHubAppAuthorization (appAuthorizationId d),
                        Read_Template (templateId d),
                        Call_createRepositoryFromTemplate (repositoryParams d acct url)
                          (installationId a)]) \<or>
            (\<exists>d a t acct url repo. FormSchema_safeParse payload = Inr d \<and>
               gitHubAppAuthorization_findUnique env (appAuthorizationId d) = Returns (Some a) \<and>
               template_findUnique env (templateId d) = Returns (Some t) \<and>
               octokit env \<and>
               AccountSchema_safeParse env (account a) = Some acct \<and>
               URL_new env (repositoryUrl t) = Returns url \<and>
               createRepositoryFromTemplate env (repositoryParams d acct url) (installationId a)
                 = Returns (Some repo) \<and>
               organizationTemplate_create env (createInput d organizationSlug repo) = Throws e \<and>
               trace = [Read_GitHubAppAuthorization (appAuthorizationId d),
                        Read_Template (templateId d),
                        Call_createRepositoryFromTemplate (repositoryParams d acct url)
                          (installationId a),
                        Write_OrganizationTemplate (createInput d organizationSlug repo)])) \<and>
         ((\<forall>i x. gitHubAppAuthorization_findUnique env i \<noteq> Throws x) \<and>
          (\<forall>i x. template_findUnique env i \<noteq> Throws x) \<and>
          (\<forall>u x. URL_new env u \<noteq> Throws x) \<and>
          (\<forall>ps i x. createRepositoryFromTemplate env ps i \<noteq> Throws x) \<and>
          (\<forall>data x. organizationTemplate_create env data \<noteq> Throws x) \<longrightarrow>
            (\<exists>result. fst (call env userId organizationSlug payload) = Returns result))"
proof (cases rule: call_paths
    [where env = env and payload = payload and organizationSlug = organizationSlug])
  case (invalid_payload "is")
  then show ?thesis by (auto simp: call_invalid_payload)
next
  case (authorization_rejected d e')
  then show ?thesis by (auto simp: call_authorization_rejected)
next
  case (no_authorization d)
  then show ?thesis by (auto simp: call_no_authorization)
next
  case (template_rejected d a e')
  then show ?thesis by (auto simp: call_template_rejected)
next
  case (no_template d a)
  then show ?thesis by (auto simp: call_no_template)
next
  case (not_configured d a t)
  then show ?thesis by (auto simp: call_not_configured)
next
  case (bad_account d a t)
  then show ?thesis by (auto simp: call_bad_account)
next
  case (bad_url d a t acct e')
  then show ?thesis by (auto simp: call_bad_url)
next
  case (repository_rejected d a t acct url e')
  then show ?thesis by (auto simp: call_repository_rejected)
next
  case (no_repository d a t acct url)
  then show ?thesis by (auto simp: call_no_repository)
next
  case (create_rejected d a t acct url repo e')
  then show ?thesis by (auto simp: call_create_rejected)
next
  case (created d a t acct url repo row)
  then show ?thesis by (auto simp: call_created)
qed

text \<open>
  C3, witness: the throw for \<open>tpl_bad\<close> obtained from the theorem, and a return for the
  same input once the constructor accepts every string and the create every slug.
\<close>

theorem call_throws_exactly_at_its_five_uncaught_sites_witness:
  "call sample_env ''user_1'' ''acme'' (sample_payload ''my-repo'' ''tpl_bad'' ''auth_1'') =
     (Throws (TypeError ''Invalid URL''),
      [Read_GitHubAppAuthorization ''auth_1'', Read_Template ''tpl_bad'']) \<and>
   (\<exists>result.
      fst (call (sample_env\<lparr>URL_new := \<lambda>s. Returns \<lparr>path = ListPath []\<rparr>,
                            organizationTemplate_create := \<lambda>data. Returns (''ot_1'', data)\<rparr>)
             ''user_1'' ''no-such-org'' (sample_payload ''my-repo'' ''tpl_bad'' ''auth_1'')) =
      Returns result)"
proof -
  let ?d = "\<lparr>name = ''my-repo'', templateId = ''tpl_bad'', private_field = Some ''on'',
             appAuthorizationId = ''auth_1''\<rparr>"
  let ?a = "\<lparr>installationId = 42, account = JObject [(''login'', JString ''acme-org'')]\<rparr>"
  let ?t = "\<lparr>repositoryUrl = ''not a url''\<rparr>"
  let ?acct = "\<lparr>login = ''acme-org''\<rparr>"
  let ?quiet = "sample_env\<lparr>URL_new := \<lambda>s. Returns \<lparr>path = ListPath []\<rparr>,
                           organizationTemplate_create := \<lambda>data. Returns (''ot_1'', data)\<rparr>"
  have "FormSchema_safeParse (sample_payload ''my-repo'' ''tpl_bad'' ''auth_1'') = Inr ?d \<and>
        gitHubAppAuthorization_findUnique sample_env (appAuthorizationId ?d) = Returns (Some ?a) \<and>
        template_findUnique sample_env (templateId ?d) = Returns (Some ?t) \<and>
        octokit sample_env \<and>
        AccountSchema_safeParse sample_env (account ?a) = Some ?acct \<and>
        URL_new sample_env (repositoryUrl ?t) = Throws (TypeError ''Invalid URL'') \<and>
        [Read_GitHubAppAuthorization ''auth_1'', Read_Template ''tpl_bad''] =
          [Read_GitHubAppAuthorization (appAuthorizationId ?d), Read_Template (templateId ?d)]"
    by (simp add: sample_defs schema_defs)
  then have "call sample_env ''user_1'' ''acme'' (sample_payload ''my-repo'' ''tpl_bad'' ''auth_1'') =
     (Throws (TypeError ''Invalid URL''),
      [Read_GitHubAppAuthorization ''auth_1'', Read_Template ''tpl_bad''])"
    using call_throws_exactly_at_its_five_uncaught_sites
      [of sample_env "''user_1''" "''acme''" "sample_payload ''my-repo'' ''tpl_bad'' ''auth_1''"
          "TypeError ''Invalid URL''"
          "[Read_GitHubAppAuthorization ''auth_1'', Read_Template ''tpl_bad'']"]
    by blast
  moreover have "\<exists>result. fst (call ?quiet ''user_1'' ''no-such-org''
                    (sample_payload ''my-repo'' ''tpl_bad'' ''auth_1'')) = Returns result"
    using call_throws_exactly_at_its_five_uncaught_sites
      [of ?quiet "''user_1''" "''no-such-org''" "sample_payload ''my-repo'' ''tpl_bad'' ''auth_1''"
          "TypeError ''Invalid URL''" "[]"]
    by (simp add: sample_env_def sample_findAuthorization_def sample_findTemplate_def
        sample_createRepository_def)
  ultimately show ?thesis by simp
qed

section \<open>Owner and repository are the first two path segments\<close>

text \<open>
  C4 says that for every well-formed repository URL the \<open>template_owner\<close> and
  \<open>template_repo\<close> given to the external call are the first and second path segments
  of the URL.  Lines 94--96 take the pathname, split it at the slashes and drop the first
  piece.  For a list path the pathname starts with a slash, the dropped piece is empty
  and the rest are the segments.  An opaque path has no leading slash, so the piece
  that is dropped is the beginning of the path itself.

  C4, counterexample: \<open>mailto:acme/base-starter\<close> has the opaque path
  \<open>acme/base-starter\<close>; the owner passed on is \<open>base-starter\<close> and the repository is
  \<open>undefined\<close>.
\<close>

theorem opaque_path_owner_is_not_first_segment:
  "URL_new sample_env ''mailto:acme/base-starter'' = Returns \<lparr>path = OpaquePath ''acme/base-starter''\<rparr> \<and>
   path_segments \<lparr>path = OpaquePath ''acme/base-starter''\<rparr> = [''acme/base-starter''] \<and>
   split (pathname \<lparr>path = OpaquePath ''acme/base-starter''\<rparr>) CHR ''/'' = [''acme'', ''base-starter''] \<and>
   take 3 (snd (call sample_env ''user_1'' ''acme'' (sample_payload ''my-repo'' ''tpl_mailto'' ''auth_1''))) =
     [Read_GitHubAppAuthorization ''auth_1'', Read_Template ''tpl_mailto'',
      Call_createRepositoryFromTemplate
        \<lparr>template_owner = Some ''base-starter'', template_repo = None,
         owner = ''acme-org'', name_param = ''my-repo'', private_param = True\<rparr> 42]"
  by (simp add: call_defs sample_defs schema_defs path_segments_def)

text \<open>
  C4, as amended: when the repository URL parses to a URL with a list path (whose
  segments, as in every parsed URL, contain no slash), the external call is issued
  right after the two lookups, with \<open>template_owner\<close> the first and \<open>template_repo\<close> the
  second segment of the path, each \<open>undefined\<close> when the path has no such segment.
\<close>

theorem owner_and_repo_are_first_two_segments:
  assumes "FormSchema_safeParse payload = Inr d"
    and "gitHubAppAuthorization_findUnique env (appAuthorizationId d) = Returns (Some a)"
    and "template_findUnique env (templateId d) = Returns (Some t)"
    and "octokit env"
    and "AccountSchema_safeParse env (account a) = Some acct"
    and "URL_new env (repositoryUrl t) = Returns url"
    and "path url = ListPath segs"
    and "slash_free segs"
  shows "\<exists>ps rest.
           snd (call env userId organizationSlug payload) =
             [Read_GitHubAppAuthorization (appAuthorizationId d), Read_Template (templateId d),
              Call_createRepositoryFromTemplate ps (installationId a)] @ rest \<and>
           template_owner ps = element (path_segments url) 0 \<and>
           template_repo ps = element (path_segments url) 1"
proof -
  let ?ps = "repositoryParams d acct url"
  have segs: "path_segments url = segs"
    using assms(7) by (simp add: path_segments_def)
  have "owner_and_repo url = (element segs 0, element segs 1)"
    using assms(7,8) by (rule owner_and_repo_list_path)
  then have args: "template_owner ?ps = element (path_segments url) 0"
    "template_repo ?ps = element (path_segments url) 1"
    by (simp_all add: repositoryParams_def segs)
  have "\<exists>rest. snd (call env userId organizationSlug payload) =
             [Read_GitHubAppAuthorization (appAuthorizationId d), Read_Template (templateId d),
              Call_createRepositoryFromTemplate ?ps (installationId a)] @ rest"
  proof (cases "createRepositoryFromTemplate env ?ps (installationId a)")
    case (Throws e)
    with assms(1-6) show ?thesis by (simp add: call_repository_rejected)
  next
    case (Returns answer)
    show ?thesis
    proof (cases answer)
      case None
      with Returns assms(1-6) show ?thesis by (simp add: call_no_repository)
    next
      case (Some repo)
      with Returns assms(1-6) show ?thesis by (simp add: call_repository_made)
    qed
  qed
  with args show ?thesis by blast
qed

text \<open>
  C4, witness: for \<open>https://github.com/acme/base-starter\<close> the two arguments are
  \<open>acme\<close> and \<open>base-starter\<close>.
\<close>

theorem owner_and_repo_are_first_two_segments_witness:
  "\<exists>ps rest.
     snd (call sample_env ''user_1'' ''acme'' (sample_payload ''my-repo'' ''tpl_1'' ''auth_1'')) =
       [Read_GitHubAppAuthorization ''auth_1'', Read_Template ''tpl_1'',
        Call_createRepositoryFromTemplate ps 42] @ rest \<and>
     template_owner ps = Some ''acme'' \<and>
     template_repo ps = Some ''base-starter''"
proof -
  let ?d = "\<lparr>name = ''my-repo'', templateId = ''tpl_1'', private_field = Some ''on'',
             appAuthorizationId = ''auth_1''\<rparr>"
  let ?a = "\<lparr>installationId = 42, account = JObject [(''login'', JString ''acme-org'')]\<rparr>"
  let ?t = "\<lparr>repositoryUrl = ''https://github.com/acme/base-starter''\<rparr>"
  let ?acct = "\<lparr>login = ''acme-org''\<rparr>"
  let ?url = "\<lparr>path = ListPath [''acme'', ''base-starter'']\<rparr>"
  have 1: "FormSchema_safeParse (sample_payload ''my-repo'' ''tpl_1'' ''auth_1'') = Inr ?d"
    by (simp add: sample_payload_parsed)
  have 2: "gitHubAppAuthorization_findUnique sample_env (appAuthorizationId ?d) = Returns (Some ?a)"
    by (simp add: sample_defs)
  have 3: "template_findUnique sample_env (templateId ?d) = Returns (Some ?t)"
    by (simp add: sample_defs)
  have 4: "octokit sample_env"
    by (simp add: sample_defs)
  have 5: "AccountSchema_safeParse sample_env (account ?a) = Some ?acct"
    by (simp add: sample_defs property_def)
  have 6: "URL_new sample_env (repositoryUrl ?t) = Returns ?url"
    by (simp add: sample_defs)
  have 7: "path ?url = ListPath [''acme'', ''base-starter'']"
    by simp
  have 8: "slash_free [''acme'', ''base-starter'']"
    by (simp add: slash_free_def)
  show ?thesis
    using owner_and_repo_are_first_two_segments [OF 1 2 3 4 5 6 7 8, of "''user_1''" "''acme''"]
    by (simp add: path_segments_def element_def)
qed

section \<open>What the form schema accepts, and what happens on rejection\<close>

text \<open>
  C5: the schema check accepts exactly the values of the shape \<open>{name: string of 3 to 100
  characters, templateId: string, private: absent or "on", appAuthorizationId: string}\<close>
  (keys outside the shape are ignored); for a payload it rejects, \<open>call\<close> returns
  an error whose message renders the list of all violations, and performs no lookup,
  no external call and no write.  The list of violations is never empty; for an object
  it has the violated keys of the shape, in the order of the schema, and for anything
  else the single issue that an object was expected.
\<close>

theorem form_schema_accepts_exactly_the_shape:
  "((\<exists>d. FormSchema_safeParse payload = Inr d) \<longleftrightarrow> has_form_shape payload) \<and>
   (\<forall>issues. FormSchema_safeParse payload = Inl issues \<longrightarrow>
      issues \<noteq> [] \<and>
      call env userId organizationSlug payload =
        (Returns (Error (generateErrorMessage env issues)), []) \<and>
      (\<forall>kvs. payload = JObject kvs \<longrightarrow>
         map issue_path issues = map (\<lambda>k. [k]) (violated_keys kvs)) \<and>
      ((\<forall>kvs. payload \<noteq> JObject kvs) \<longrightarrow>
         issues = [invalid_type [] zod_object (getParsedType payload)]))"
proof (intro conjI allI impI)
  show "(\<exists>d. FormSchema_safeParse payload = Inr d) \<longleftrightarrow> has_form_shape payload"
    by (rule safeParse_accepts_shape)
next
  fix issues assume "FormSchema_safeParse payload = Inl issues"
  then show "issues \<noteq> []" by (rule safeParse_issues_not_Nil)
next
  fix issues assume "FormSchema_safeParse payload = Inl issues"
  then show "call env userId organizationSlug payload =
        (Returns (Error (generateErrorMessage env issues)), [])"
    by (rule call_invalid_payload)
next
  fix issues kvs
  assume "FormSchema_safeParse payload = Inl issues" and "payload = JObject kvs"
  then show "map issue_path issues = map (\<lambda>k. [k]) (violated_keys kvs)"
    by (simp add: safeParse_issue_paths)
next
  fix issues
  assume "FormSchema_safeParse payload = Inl issues" and "\<forall>kvs. payload \<noteq> JObject kvs"
  then show "issues = [invalid_type [] zod_object (getParsedType payload)]"
    using safeParse_not_object [of payload] by simp
qed

text \<open>
  C5, witness: the sample payload has the shape; an object with a two-character name,
  a wrong marker and the two ids missing has not, and is answered with the rendering of
  its four issues and no effect.
\<close>

theorem form_schema_accepts_exactly_the_shape_witness:
  "has_form_shape (sample_payload ''my-repo'' ''tpl_1'' ''auth_1'') \<and>
   \<not> has_form_shape (JObject [(''name'', JString ''ab''), (''private'', JString ''off'')]) \<and>
   call sample_env ''user_1'' ''acme'' (JObject [(''name'', JString ''ab''), (''private'', JString ''off'')]) =
     (Returns (Error (generateErrorMessage sample_env
        [too_small [''name''] 3,
         invalid_type [''templateId''] zod_string zod_undefined,
         invalid_literal [''private''] ''on'' (JString ''off''),
         invalid_type [''appAuthorizationId''] zod_string zod_undefined])), [])"
proof -
  have ok: "FormSchema_safeParse (sample_payload ''my-repo'' ''tpl_1'' ''auth_1'') =
          Inr \<lparr>name = ''my-repo'', templateId = ''tpl_1'', private_field = Some ''on'',
               appAuthorizationId = ''auth_1''\<rparr>"
    by (simp add: sample_payload_parsed)
  have bad: "FormSchema_safeParse (JObject [(''name'', JString ''ab''), (''private'', JString ''off'')]) =
          Inl [too_small [''name''] 3,
               invalid_type [''templateId''] zod_string zod_undefined,
               invalid_literal [''private''] ''on'' (JString ''off''),
               invalid_type [''appAuthorizationId''] zod_string zod_undefined]"
    by (simp add: schema_defs)
  show ?thesis
    using
      form_schema_accepts_exactly_the_shape
        [of "sample_payload ''my-repo'' ''tpl_1'' ''auth_1''" sample_env "''user_1''" "''acme''"]
      form_schema_accepts_exactly_the_shape
        [of "JObject [(''name'', JString ''ab''), (''private'', JString ''off'')]" sample_env "''user_1''" "''acme''"]
      ok bad
    by simp
qed

section \<open>The four checks before the external call\<close>

text \<open>
  C6: for a valid payload the checks run in the order authorization lookup, template
  lookup, client configured, account schema, and the first that fails decides the
  result: a missing authorization gives \<open>App authorization not found\<close> whatever the
  template lookup would give (it is not issued), a missing template gives
  \<open>Template not found\<close>, an unconfigured client \<open>GitHub App not configured\<close>, an account
  the account schema rejects \<open>Account not found\<close>; in each case the effects stop at the
  lookups made so far.
\<close>

theorem pre_call_checks_in_order:
  assumes "FormSchema_safeParse payload = Inr d"
  shows "(gitHubAppAuthorization_findUnique env (appAuthorizationId d) = Returns None \<longrightarrow>
            call env userId organizationSlug payload =
              (Returns (Error ''App authorization not found''),
               [Read_GitHubAppAuthorization (appAuthorizationId d)])) \<and>
         (\<forall>a. gitHubAppAuthorization_findUnique env (appAuthorizationId d) = Returns (Some a) \<and>
              template_findUnique env (templateId d) = Returns None \<longrightarrow>
            call env userId organizationSlug payload =
              (Returns (Error ''Template not found''),
               [Read_GitHubAppAuthorization (appAuthorizationId d), Read_Template (templateId d)])) \<and>
         (\<forall>a t. gitHubAppAuthorization_findUnique env (appAuthorizationId d) = Returns (Some a) \<and>
              template_findUnique env (templateId d) = Returns (Some t) \<and> \<not> octokit env \<longrightarrow>
            call env userId organizationSlug payload =
              (Returns (Error ''GitHub App not configured''),
               [Read_GitHubAppAuthorization (appAuthorizationId d), Read_Template (templateId d)])) \<and>
         (\<forall>a t. gitHubAppAuthorization_findUnique env (appAuthorizationId d) = Returns (Some a) \<and>
              template_findUnique env (templateId d) = Returns (Some t) \<and> octokit env \<and>
              AccountSchema_safeParse env (account a) = None \<longrightarrow>
            call env userId organizationSlug payload =
              (Returns (Error ''Account not found''),
               [Read_GitHubAppAuthorization (appAuthorizationId d), Read_Template (templateId d)]))"
  using assms
  by (simp add: call_no_authorization call_no_template call_not_configured call_bad_account)

text \<open>
  C6, witness: four runs of the sample environment.  In the first both rows are
  missing; in the third and fourth the account is invalid and the template's URL is not
  a URL, and the earlier check still decides.
\<close>

theorem pre_call_checks_in_order_witness:
  "call sample_env ''user_1'' ''acme'' (sample_payload ''my-repo'' ''tpl_0'' ''auth_0'') =
     (Returns (Error ''App authorization not found''), [Read_GitHubAppAuthorization ''auth_0'']) \<and>
   call sample_env ''user_1'' ''acme'' (sample_payload ''my-repo'' ''tpl_0'' ''auth_1'') =
     (Returns (Error ''Template not found''),
      [Read_GitHubAppAuthorization ''auth_1'', Read_Template ''tpl_0'']) \<and>
   call (sample_env\<lparr>octokit := False\<rparr>) ''user_1'' ''acme'' (sample_payload ''my-repo'' ''tpl_bad'' ''auth_2'') =
     (Returns (Error ''GitHub App not configured''),
      [Read_GitHubAppAuthorization ''auth_2'', Read_Template ''tpl_bad'']) \<and>
   call sample_env ''user_1'' ''acme'' (sample_payload ''my-repo'' ''tpl_bad'' ''auth_2'') =
     (Returns (Error ''Account not found''),
      [Read_GitHubAppAuthorization ''auth_2'', Read_Template ''tpl_bad''])"
  using
    pre_call_checks_in_order [OF sample_payload_parsed [of "''my-repo''" "''tpl_0''" "''auth_0''"],
      of sample_env "''user_1''" "''acme''"]
    pre_call_checks_in_order [OF sample_payload_parsed [of "''my-repo''" "''tpl_0''" "''auth_1''"],
      of sample_env "''user_1''" "''acme''"]
    pre_call_checks_in_order [OF sample_payload_parsed [of "''my-repo''" "''tpl_bad''" "''auth_2''"],
      of "sample_env\<lparr>octokit := False\<rparr>" "''user_1''" "''acme''"]
    pre_call_checks_in_order [OF sample_payload_parsed [of "''my-repo''" "''tpl_bad''" "''auth_2''"],
      of sample_env "''user_1''" "''acme''"]
  by (simp add: sample_defs)

section \<open>A failed repository call\<close>



section \<open>Independence of the user id\<close>

text \<open>
  C8: two invocations that differ only in \<open>userId\<close> return the same result and issue
  the same reads, the same external call and the same write.
\<close>

theorem call_ignores_userId:
  "call env userId1 organizationSlug payload = call env userId2 organizationSlug payload"
  by (simp add: call_def)

text \<open>C8, witness: two user ids on the successful sample run.\<close>

theorem call_ignores_userId_witness:
  "call sample_env ''user_1'' ''acme'' (sample_payload ''my-repo'' ''tpl_1'' ''auth_1'') =
   call sample_env ''user_2'' ''acme'' (sample_payload ''my-repo'' ''tpl_1'' ''auth_1'')"
  using call_ignores_userId [of sample_env "''user_1''" "''acme''"
      "sample_payload ''my-repo'' ''tpl_1'' ''auth_1''" "''user_2''"] .

section \<open>The organization slug is used by the create alone\<close>

text \<open>
  C9: \<open>organizationSlug\<close> is not read, validated or looked up before the external call;
  its only use is as the connect key of the final create.  For any two slugs the
  effects before the write (the lookups and the external call with its arguments) are
  the same; an invocation that issues no write has the same outcome and effects for
  both, so no earlier step fails because of the slug; and a write carries the slug as
  its organization key and is otherwise the same for both.
\<close>

theorem organizationSlug_only_reaches_the_create:
  fixes env :: "'ot env"
  shows "takeWhile (\<lambda>e. \<not> is_write e) (snd (call env userId slug1 payload)) =
           takeWhile (\<lambda>e. \<not> is_write e) (snd (call env userId slug2 payload)) \<and>
         (filter is_write (snd (call env userId slug1 payload)) = [] \<longrightarrow>
            call env userId slug1 payload = call env userId slug2 payload) \<and>
         (\<forall>data. Write_OrganizationTemplate data \<in> set (snd (call env userId slug1 payload)) \<longrightarrow>
            organization_connect_slug data = slug1 \<and>
            Write_OrganizationTemplate (data\<lparr>organization_connect_slug := slug2\<rparr>)
              \<in> set (snd (call env userId slug2 payload)))"
proof (cases rule: call_paths
    [where env = env and payload = payload and organizationSlug = slug1])
  case (invalid_payload "is")
  then show ?thesis by (simp add: call_invalid_payload)
next
  case (authorization_rejected d e)
  then show ?thesis by (simp add: call_authorization_rejected)
next
  case (no_authorization d)
  then show ?thesis by (simp add: call_no_authorization)
next
  case (template_rejected d a e)
  then show ?thesis by (simp add: call_template_rejected)
next
  case (no_template d a)
  then show ?thesis by (simp add: call_no_template)
next
  case (not_configured d a t)
  then show ?thesis by (simp add: call_not_configured)
next
  case (bad_account d a t)
  then show ?thesis by (simp add: call_bad_account)
next
  case (bad_url d a t acct e)
  then show ?thesis by (simp add: call_bad_url)
next
  case (repository_rejected d a t acct url e)
  then show ?thesis by (simp add: call_repository_rejected)
next
  case (no_repository d a t acct url)
  then show ?thesis by (simp add: call_no_repository)
next
  case (create_rejected d a t acct url repo e)
  then show ?thesis by (auto simp: call_repository_made createInput_def)
next
  case (created d a t acct url repo row)
  then show ?thesis by (auto simp: call_repository_made createInput_def)
qed

text \<open>
  C9, witness: the sample runs for the slug \<open>acme\<close> and for a slug of no organization.
\<close>

theorem organizationSlug_only_reaches_the_create_witness:
  "takeWhile (\<lambda>e. \<not> is_write e)
     (snd (call sample_env ''user_1'' ''acme'' (sample_payload ''my-repo'' ''tpl_1'' ''auth_1''))) =
   takeWhile (\<lambda>e. \<not> is_write e)
     (snd (call sample_env ''user_1'' ''no-such-org'' (sample_payload ''my-repo'' ''tpl_1'' ''auth_1''))) \<and>
   call sample_env ''user_1'' ''acme'' (sample_payload ''taken'' ''tpl_1'' ''auth_1'') =
   call sample_env ''user_1'' ''no-such-org'' (sample_payload ''taken'' ''tpl_1'' ''auth_1'')"
  using
    organizationSlug_only_reaches_the_create
      [of sample_env "''user_1''" "''acme''" "sample_payload ''my-repo'' ''tpl_1'' ''auth_1''" "''no-such-org''"]
    organizationSlug_only_reaches_the_create
      [of sample_env "''user_1''" "''acme''" "sample_payload ''taken'' ''tpl_1'' ''auth_1''" "''no-such-org''"]
  by (simp add: sample_run_taken)

section \<open>Repository URLs with short paths\<close>

text \<open>
  C10 says that for a URL with fewer than two non-empty path segments \<open>call\<close> goes on to
  the external call with \<open>template_owner\<close> the empty string or the sole segment and
  \<open>template_repo\<close> \<open>undefined\<close>.  The first half holds.  The second does not when the
  path has a second segment that is empty, or an empty first segment before a
  non-empty second one.

  C10, counterexample: \<open>https://github.com/acme/\<close> has the segments \<open>acme\<close> and the
  empty string, so one non-empty segment; \<open>template_repo\<close> is the empty string, not
  \<open>undefined\<close>.
\<close>

theorem trailing_slash_repo_is_empty_string:
  "URL_new sample_env ''https://github.com/acme/'' = Returns \<lparr>path = ListPath [''acme'', []]\<rparr> \<and>
   length (filter (\<lambda>s. s \<noteq> []) (path_segments \<lparr>path = ListPath [''acme'', []]\<rparr>)) = 1 \<and>
   take 3 (snd (call sample_env ''user_1'' ''acme'' (sample_payload ''my-repo'' ''tpl_slash'' ''auth_1''))) =
     [Read_GitHubAppAuthorization ''auth_1'', Read_Template ''tpl_slash'',
      Call_createRepositoryFromTemplate
        \<lparr>template_owner = Some ''acme'', template_repo = Some [],
         owner = ''acme-org'', name_param = ''my-repo'', private_param = True\<rparr> 42]"
  by (simp add: call_defs sample_defs schema_defs path_segments_def)

text \<open>
  C10, as amended: when the repository URL parses to a URL with a list path of fewer
  than two non-empty segments, \<open>call\<close> neither returns an error nor throws at the
  parsing step: the external call is issued right after the two lookups, and its answer
  (and, when it returns a repository, that of the create) decides the result.  Its \<open>template_owner\<close> and \<open>template_repo\<close> are the first and
  second segment of the path, \<open>undefined\<close> where the path has no such segment and the
  empty string where that segment is empty; \<open>template_repo\<close> is \<open>undefined\<close> exactly when
  the path has fewer than two segments, and at least one of the two arguments is
  \<open>undefined\<close> or empty.
\<close>

theorem short_path_reaches_the_repository_call:
  assumes "FormSchema_safeParse payload = Inr d"
    and "gitHubAppAuthorization_findUnique env (appAuthorizationId d) = Returns (Some a)"
    and "template_findUnique env (templateId d) = Returns (Some t)"
    and "octokit env"
    and "AccountSchema_safeParse env (account a) = Some acct"
    and "URL_new env (repositoryUrl t) = Returns url"
    and "path url = ListPath segs"
    and "slash_free segs"
    and "length (filter (\<lambda>s. s \<noteq> []) segs) < 2"
  shows "\<exists>ps.
           take 3 (snd (call env userId organizationSlug payload)) =
             [Read_GitHubAppAuthorization (appAuthorizationId d), Read_Template (templateId d),
              Call_createRepositoryFromTemplate ps (installationId a)] \<and>
           fst (call env userId organizationSlug payload) =
             (case createRepositoryFromTemplate env ps (installationId a) of
                Throws e \<Rightarrow> Throws e
              | Returns None \<Rightarrow> Returns (Error ''Failed to create repository'')
              | Returns (Some repo) \<Rightarrow>
                  (case organizationTemplate_create env (createInput d organizationSlug repo) of
                     Returns row \<Rightarrow> Returns (Success row)
                   | Throws e \<Rightarrow> Throws e)) \<and>
           (template_owner ps, template_repo ps) =
             (case segs of
                [] \<Rightarrow> (None, None)
              | [s] \<Rightarrow> (Some s, None)
              | s1 # s2 # others \<Rightarrow> (Some s1, Some s2)) \<and>
           (template_repo ps = None \<longleftrightarrow> length segs < 2) \<and>
           (template_owner ps = None \<or> template_owner ps = Some [] \<or>
            template_repo ps = None \<or> template_repo ps = Some [])"
proof -
  let ?ps = "repositoryParams d acct url"
  have "owner_and_repo url = (element segs 0, element segs 1)"
    using assms(7,8) by (rule owner_and_repo_list_path)
  then have args: "template_owner ?ps = element segs 0" "template_repo ?ps = element segs 1"
    by (simp_all add: repositoryParams_def)
  have shape: "(element segs 0, element segs 1) =
      (case segs of [] \<Rightarrow> (None, None) | [s] \<Rightarrow> (Some s, None)
       | s1 # s2 # others \<Rightarrow> (Some s1, Some s2))"
    by (simp add: element_def split: list.splits)
  have repo: "element segs 1 = None \<longleftrightarrow> length segs < 2"
    by (auto simp: element_def)
  have some_empty: "element segs 0 = None \<or> element segs 0 = Some [] \<or>
      element segs 1 = None \<or> element segs 1 = Some []"
  proof (cases segs)
    case Nil
    then show ?thesis by (simp add: element_def)
  next
    case outer: (Cons s1 rest)
    show ?thesis
    proof (cases rest)
      case Nil
      with outer show ?thesis by (simp add: element_def)
    next
      case (Cons s2 others)
      with outer assms(9) show ?thesis by (auto simp: element_def split: if_splits)
    qed
  qed
  have run: "take 3 (snd (call env userId organizationSlug payload)) =
             [Read_GitHubAppAuthorization (appAuthorizationId d), Read_Template (templateId d),
              Call_createRepositoryFromTemplate ?ps (installationId a)] \<and>
           fst (call env userId organizationSlug payload) =
             (case createRepositoryFromTemplate env ?ps (installationId a) of
                Throws e \<Rightarrow> Throws e
              | Returns None \<Rightarrow> Returns (Error ''Failed to create repository'')
              | Returns (Some repo) \<Rightarrow>
                  (case organizationTemplate_create env (createInput d organizationSlug repo) of
                     Returns row \<Rightarrow> Returns (Success row)
                   | Throws e \<Rightarrow> Throws e))"
  proof (cases "createRepositoryFromTemplate env ?ps (installationId a)")
    case (Throws e)
    with assms(1-6) show ?thesis by (simp add: call_repository_rejected)
  next
    case (Returns answer)
    show ?thesis
    proof (cases answer)
      case None
      with Returns assms(1-6) show ?thesis by (simp add: call_no_repository)
    next
      case (Some repo)
      with Returns assms(1-6) show ?thesis by (simp add: call_repository_made)
    qed
  qed
  have "(template_owner ?ps, template_repo ?ps) =
      (case segs of [] \<Rightarrow> (None, None) | [s] \<Rightarrow> (Some s, None)
       | s1 # s2 # others \<Rightarrow> (Some s1, Some s2))"
    "template_repo ?ps = None \<longleftrightarrow> length segs < 2"
    "template_owner ?ps = None \<or> template_owner ?ps = Some [] \<or>
      template_repo ?ps = None \<or> template_repo ?ps = Some []"
    using shape repo some_empty by (simp_all only: args)
  with run show ?thesis by (intro exI [of _ ?ps] conjI) simp_all
qed

text \<open>
  C10, witness: \<open>https://github.com/\<close> has the single, empty segment; the owner is the
  empty string and the repository \<open>undefined\<close>.
\<close>

theorem short_path_reaches_the_repository_call_witness:
  "\<exists>ps.
     take 3 (snd (call sample_env ''user_1'' ''acme'' (sample_payload ''my-repo'' ''tpl_root'' ''auth_1''))) =
       [Read_GitHubAppAuthorization ''auth_1'', Read_Template ''tpl_root'',
        Call_createRepositoryFromTemplate ps 42] \<and>
     template_owner ps = Some [] \<and> template_repo ps = None"
proof -
  let ?d = "\<lparr>name = ''my-repo'', templateId = ''tpl_root'', private_field = Some ''on'',
             appAuthorizationId = ''auth_1''\<rparr>"
  let ?a = "\<lparr>installationId = 42, account = JObject [(''login'', JString ''acme-org'')]\<rparr>"
  let ?t = "\<lparr>repositoryUrl = ''https://github.com/''\<rparr>"
  let ?acct = "\<lparr>login = ''acme-org''\<rparr>"
  let ?url = "\<lparr>path = ListPath [[]]\<rparr>"
  have 1: "FormSchema_safeParse (sample_payload ''my-repo'' ''tpl_root'' ''auth_1'') = Inr ?d"
    by (simp add: sample_payload_parsed)
  have 2: "gitHubAppAuthorization_findUnique sample_env (appAuthorizationId ?d) = Returns (Some ?a)"
    by (simp add: sample_defs)
  have 3: "template_findUnique sample_env (templateId ?d) = Returns (Some ?t)"
    by (simp add: sample_defs)
  have 4: "octokit sample_env"
    by (simp add: sample_defs)
  have 5: "AccountSchema_safeParse sample_env (account ?a) = Some ?acct"
    by (simp add: sample_defs property_def)
  have 6: "URL_new sample_env (repositoryUrl ?t) = Returns ?url"
    by (simp add: sample_defs)
  have 7: "path ?url = ListPath [[]]"
    by simp
  have 8: "slash_free [[]]"
    by (simp add: slash_free_def)
  have 9: "length (filter (\<lambda>s. s \<noteq> []) [[]::string]) < 2"
    by simp
  show ?thesis
    using short_path_reaches_the_repository_call [OF 1 2 3 4 5 6 7 8 9, of "''user_1''" "''acme''"]
    by auto
qed

end
